theory Spec2Isabelle
  imports Complex_Main
begin

section \<open>Data model: the pandas frame the program passes between its stages\<close>

text \<open>
  The program (\<^verbatim>\<open>Methods/nvidia_stock_price_predictor.py\<close>) keeps one pandas
  \<^verbatim>\<open>DataFrame\<close>: a date index and named, typed columns of the index's length.
  A float column may hold \<^verbatim>\<open>NaN\<close>, modelled as \<open>None\<close>. Prices are
  modelled as real numbers, as the specification's data model states them; rounding of
  64-bit floats is not part of the model. A calendar day is modelled by its ordinal number.
\<close>

type_synonym date = int

datatype column =
    FloatCol "real option list"
  | IntCol "int list"
  | DateCol "date list"

record frame =
  index :: "date list"
  columns :: "(string \<times> column) list"

datatype error = KeyError | ValueError | DataError

fun col_length :: "column \<Rightarrow> nat" where
  "col_length (FloatCol xs) = length xs"
| "col_length (IntCol xs) = length xs"
| "col_length (DateCol xs) = length xs"

text \<open>\<^verbatim>\<open>len(data)\<close>: the number of records.\<close>

definition len :: "frame \<Rightarrow> nat" where
  "len df = length (index df)"

text \<open>Every frame pandas builds has columns as long as its index.\<close>

definition wf_frame :: "frame \<Rightarrow> bool" where
  "wf_frame df = list_all (\<lambda>p. col_length (snd p) = len df) (columns df)"

definition column_names :: "frame \<Rightarrow> string list" where
  "column_names df = map fst (columns df)"

text \<open>
  \<^verbatim>\<open>data[name]\<close>: the column of that name, \<^verbatim>\<open>KeyError\<close> when there is none. Column
  names are taken to be unique, as in every frame the program builds; of several columns of
  one name the model reads the first, where pandas would hand back all of them.
\<close>

definition get_column :: "frame \<Rightarrow> string \<Rightarrow> error + column" where
  "get_column df name =
     (case map_of (columns df) name of None \<Rightarrow> Inl KeyError | Some c \<Rightarrow> Inr c)"

text \<open>
  \<^verbatim>\<open>data[name] = values\<close>: a column of that name is overwritten where it stands,
  a new name is appended after the last column.
\<close>

fun assign :: "string \<Rightarrow> column \<Rightarrow> (string \<times> column) list \<Rightarrow> (string \<times> column) list" where
  "assign name c [] = [(name, c)]"
| "assign name c (p # ps) = (if fst p = name then (name, c) # ps else p # assign name c ps)"

definition set_column :: "frame \<Rightarrow> string \<Rightarrow> column \<Rightarrow> frame" where
  "set_column df name c = df\<lparr>columns := assign name c (columns df)\<rparr>"

text \<open>
  The values of a numeric column as floats (an integer column is converted). Closing prices
  are numbers; a column of dates in their place is outside the model, which stops with
  \<^verbatim>\<open>DataError\<close> there (as pandas' rolling mean does; scikit-learn would take the dates
  as numbers).
\<close>

fun float_values :: "column \<Rightarrow> error + real option list" where
  "float_values (FloatCol xs) = Inr xs"
| "float_values (IntCol xs) = Inr (map (\<lambda>i. Some (of_int i)) xs)"
| "float_values (DateCol xs) = Inl DataError"

section \<open>Moving-average stage\<close>

text \<open>
  \<^verbatim>\<open>Series.rolling(window=w).mean()\<close> with pandas' defaults: a fixed trailing window
  closed on the right, \<^verbatim>\<open>min_periods = w\<close>. The window of position \<open>i\<close> holds the
  positions \<open>max 0 (i - w + 1), ..., i\<close>; its mean is taken over the values that are not
  \<^verbatim>\<open>NaN\<close> and is \<^verbatim>\<open>NaN\<close> when fewer than \<open>w\<close> of them are present (or none is).
\<close>

definition window_at :: "nat \<Rightarrow> nat \<Rightarrow> 'a list \<Rightarrow> 'a list" where
  "window_at w i xs = take (min w (Suc i)) (drop (Suc i - w) xs)"

definition observed :: "real option list \<Rightarrow> real list" where
  "observed xs = map the (filter (\<lambda>x. x \<noteq> None) xs)"

definition window_mean :: "nat \<Rightarrow> real option list \<Rightarrow> real option" where
  "window_mean min_periods win =
     (let obs = observed win in
      if min_periods \<le> length obs \<and> 0 < length obs
      then Some (sum_list obs / real (length obs)) else None)"

definition rolling_mean :: "nat \<Rightarrow> real option list \<Rightarrow> real option list" where
  "rolling_mean w xs = map (\<lambda>i. window_mean w (window_at w i xs)) [0..<length xs]"

text \<open>
  \<^verbatim>\<open>data['Moving_Avg'] = data['Close'].rolling(window=window).mean()\<close>. The read of
  \<^verbatim>\<open>'Close'\<close> and the rolling mean come before the assignment, so a failure leaves the
  frame as it was. pandas rejects a negative window with \<^verbatim>\<open>ValueError\<close>.
\<close>

definition moving_average_prediction :: "frame \<Rightarrow> int \<Rightarrow> error + frame" where
  "moving_average_prediction data window =
     (case get_column data ''Close'' of
        Inl e \<Rightarrow> Inl e
      | Inr c \<Rightarrow>
          if window < 0 then Inl ValueError
          else (case float_values c of
                  Inl e \<Rightarrow> Inl e
                | Inr closes \<Rightarrow>
                    Inr (set_column data ''Moving_Avg''
                           (FloatCol (rolling_mean (nat window) closes)))))"

section \<open>Trend forecaster\<close>

text \<open>A pandas \<^verbatim>\<open>Series\<close> (or one-column frame): values labelled by the index, in frame order.\<close>

type_synonym 'a series = "(date \<times> 'a) list"

definition labelled :: "frame \<Rightarrow> 'a list \<Rightarrow> 'a series" where
  "labelled df vs = zip (index df) vs"

text \<open>
  scikit-learn's \<^verbatim>\<open>train_test_split(X, y, test_size=t, shuffle=False)\<close> for a fraction
  \<open>t\<close>. Its helper \<^verbatim>\<open>_validate_shuffle_split\<close> wants \<open>0 < t < 1\<close> and computes
  \<^verbatim>\<open>n_test = ceil(t * n_samples)\<close> and \<^verbatim>\<open>n_train = n_samples - n_test\<close>; an empty
  training set is a \<^verbatim>\<open>ValueError\<close>. The arrays must have one length; the training rows
  are \<^verbatim>\<open>arange(n_train)\<close> and the test rows \<^verbatim>\<open>arange(n_train, n_train + n_test)\<close>.
  Only the unshuffled path is modelled, the one the program calls. The fraction is an exact
  rational: the program's \<^verbatim>\<open>0.2\<close> is \<open>2/10\<close>.
\<close>

definition validate_shuffle_split :: "nat \<Rightarrow> rat \<Rightarrow> error + nat \<times> nat" where
  "validate_shuffle_split n_samples test_size =
     (if test_size \<le> 0 \<or> 1 \<le> test_size then Inl ValueError
      else
        (let n_test = nat \<lceil>test_size * of_nat n_samples\<rceil>;
             n_train = n_samples - n_test
         in if n_train = 0 then Inl ValueError else Inr (n_train, n_test)))"

definition train_test_split ::
  "'a list \<Rightarrow> 'b list \<Rightarrow> rat \<Rightarrow> error + ('a list \<times> 'a list \<times> 'b list \<times> 'b list)" where
  "train_test_split X y test_size =
     (if length y \<noteq> length X then Inl ValueError
      else
        (case validate_shuffle_split (length X) test_size of
           Inl e \<Rightarrow> Inl e
         | Inr (n_train, n_test) \<Rightarrow>
             Inr (take n_train X, take n_test (drop n_train X),
                  take n_train y, take n_test (drop n_train y))))"

text \<open>
  \<^verbatim>\<open>LinearRegression().fit(X, y)\<close> with one feature and an intercept: the data are
  centred and the least-squares problem is solved with the minimum-norm solution, so a
  feature without variance gets the coefficient 0.
\<close>

record linear_model =
  coef :: real
  intercept :: real

definition mean :: "real list \<Rightarrow> real" where
  "mean xs = sum_list xs / real (length xs)"

definition fit :: "real list \<Rightarrow> real list \<Rightarrow> linear_model" where
  "fit xs ys =
     (let x_offset = mean xs;
          y_offset = mean ys;
          sxx = (\<Sum>x\<leftarrow>xs. (x - x_offset)\<^sup>2);
          sxy = (\<Sum>(x, y)\<leftarrow>zip xs ys. (x - x_offset) * (y - y_offset));
          b = (if sxx = 0 then 0 else sxy / sxx)
      in \<lparr>coef = b, intercept = y_offset - x_offset * b\<rparr>)"

definition predict :: "linear_model \<Rightarrow> real list \<Rightarrow> real list" where
  "predict m xs = map (\<lambda>x. x * coef m + intercept m) xs"

text \<open>scikit-learn rejects \<^verbatim>\<open>NaN\<close> in the targets it is given.\<close>

definition finite_values :: "real option list \<Rightarrow> error + real list" where
  "finite_values ys = (if None \<in> set ys then Inl ValueError else Inr (map the ys))"

text \<open>
  \<^verbatim>\<open>mean_squared_error(y_true, y_pred)\<close>: the average of the squared differences, over
  arrays of one length, neither empty nor holding \<^verbatim>\<open>NaN\<close>.
\<close>

definition mean_squared_error :: "real option list \<Rightarrow> real list \<Rightarrow> error + real" where
  "mean_squared_error y_true y_pred =
     (case finite_values y_true of
        Inl e \<Rightarrow> Inl e
      | Inr ys \<Rightarrow>
          if length ys \<noteq> length y_pred \<or> ys = [] then Inl ValueError
          else Inr (sum_list (map2 (\<lambda>a p. (a - p)\<^sup>2) ys y_pred) / real (length ys)))"

text \<open>
  \<^verbatim>\<open>data.loc[labels, name] = values\<close>: the rows are chosen by index label, every row
  carrying a requested label, label by label; an unknown label is a \<^verbatim>\<open>KeyError\<close>, and
  the values must be as many as the chosen rows.
\<close>

definition loc_positions :: "date list \<Rightarrow> date list \<Rightarrow> nat list" where
  "loc_positions idx labels =
     concat (map (\<lambda>l. filter (\<lambda>i. idx ! i = l) [0..<length idx]) labels)"

fun put_all :: "(nat \<times> real) list \<Rightarrow> real option list \<Rightarrow> real option list" where
  "put_all [] xs = xs"
| "put_all ((p, v) # pvs) xs = put_all pvs (xs[p := Some v])"

definition loc_assign :: "frame \<Rightarrow> date list \<Rightarrow> string \<Rightarrow> real list \<Rightarrow> error + frame" where
  "loc_assign df labels name vs =
     (case get_column df name of
        Inl e \<Rightarrow> Inl e
      | Inr c \<Rightarrow>
          (case float_values c of
             Inl e \<Rightarrow> Inl e
           | Inr old \<Rightarrow>
               if \<not> set labels \<subseteq> set (index df) then Inl KeyError
               else
                 (let ps = loc_positions (index df) labels in
                  if length ps \<noteq> length vs then Inl ValueError
                  else Inr (set_column df name (FloatCol (put_all (zip ps vs) old))))))"

text \<open>
  Lines 78 to 82 of \<^verbatim>\<open>linear_regression_prediction\<close>, on the frame that already holds
  the \<^verbatim>\<open>'Days'\<close> column: \<^verbatim>\<open>X = data[['Days']]\<close>, \<^verbatim>\<open>y = data['Close']\<close> and the
  split \<^verbatim>\<open>train_test_split(X, y, test_size=0.2, shuffle=False)\<close>. The result is
  \<open>(X_train, X_test, y_train, y_test)\<close>.
\<close>

definition lr_split ::
  "frame \<Rightarrow> error + (real option series \<times> real option series \<times>
                        real option series \<times> real option series)" where
  "lr_split data =
     (case get_column data ''Days'' of
        Inl e \<Rightarrow> Inl e
      | Inr dc \<Rightarrow>
          (case get_column data ''Close'' of
             Inl e \<Rightarrow> Inl e
           | Inr cc \<Rightarrow>
               (case float_values dc of
                  Inl e \<Rightarrow> Inl e
                | Inr days \<Rightarrow>
                    (case float_values cc of
                       Inl e \<Rightarrow> Inl e
                     | Inr closes \<Rightarrow>
                         train_test_split (labelled data days) (labelled data closes) 0.2))))"

text \<open>
  Lines 85 to 93: the model is fitted on the training slice, evaluated at the test
  slice's time indices, and the mean squared error against the test slice's closing prices
  is computed (the program prints it). The result is \<open>(X_test.index, y_pred, mse)\<close>.
\<close>

definition lr_evaluate :: "frame \<Rightarrow> error + (date list \<times> real list \<times> real)" where
  "lr_evaluate data =
     (case lr_split data of
        Inl e \<Rightarrow> Inl e
      | Inr (X_train, X_test, y_train, y_test) \<Rightarrow>
          (case finite_values (map snd X_train) of
             Inl e \<Rightarrow> Inl e
           | Inr xs \<Rightarrow>
               (case finite_values (map snd y_train) of
                  Inl e \<Rightarrow> Inl e
                | Inr ys \<Rightarrow>
                    (case finite_values (map snd X_test) of
                       Inl e \<Rightarrow> Inl e
                     | Inr xs_test \<Rightarrow>
                         (let y_pred = predict (fit xs ys) xs_test in
                          case mean_squared_error (map snd y_test) y_pred of
                            Inl e \<Rightarrow> Inl e
                          | Inr mse \<Rightarrow> Inr (map fst X_test, y_pred, mse))))))"

text \<open>Line 77: \<^verbatim>\<open>data['Days'] = np.arange(len(data))\<close>.\<close>

definition assign_days :: "frame \<Rightarrow> frame" where
  "assign_days data = set_column data ''Days'' (IntCol (map int [0..<len data]))"

text \<open>
  \<^verbatim>\<open>linear_regression_prediction(data)\<close> changes the caller's frame in place, so the
  model returns the frame as the call leaves it, also when the call raises, with the
  outcome: the error raised or the mean squared error printed. The frame is the value the
  Python function returns. When the write-back of line 97 raises (a date repeated in the
  evaluation slice), the outcome is that error alone: the value printed just before is not
  kept.
\<close>

definition linear_regression_prediction :: "frame \<Rightarrow> frame \<times> (error + real)" where
  "linear_regression_prediction data =
     (let data1 = assign_days data in
      case lr_evaluate data1 of
        Inl e \<Rightarrow> (data1, Inl e)
      | Inr (test_index, y_pred, mse) \<Rightarrow>
          (let data2 = set_column data1 ''Linear_Regression_Pred''
                         (FloatCol (replicate (len data1) None)) in
           case loc_assign data2 test_index ''Linear_Regression_Pred'' y_pred of
             Inl e \<Rightarrow> (data2, Inl e)
           | Inr data3 \<Rightarrow> (data3, Inr mse)))"

text \<open>
  The least-squares criterion, by its definition: the sum of the squared residuals of the
  line with slope \<open>a\<close> and intercept \<open>b\<close> on the points \<open>(xs, ys)\<close>.
\<close>

definition squared_residuals :: "real \<Rightarrow> real \<Rightarrow> real list \<Rightarrow> real list \<Rightarrow> real" where
  "squared_residuals a b xs ys = (\<Sum>(x, y)\<leftarrow>zip xs ys. (y - (x * a + b))\<^sup>2)"

section \<open>Loader and visualizer: the world outside the frame\<close>

text \<open>
  What the program touches outside its frame: the market-data provider behind
  \<^verbatim>\<open>yf.download(ticker, start=..., end=...)\<close>, the files of the working directory, and
  the charts saved and displayed, in the order it happened.
\<close>

record line =
  line_x :: column
  line_y :: column
  line_label :: string
  line_color :: string

record chart =
  figsize :: "nat \<times> nat"
  lines :: "line list"
  title :: string
  xlabel :: string
  ylabel :: string
  legend :: bool
  grid :: bool

datatype file_content = Image chart | Table frame

datatype event = Saved string chart | Shown chart

record world =
  provider :: "string \<Rightarrow> string \<Rightarrow> string \<Rightarrow> frame"
  files :: "string \<rightharpoonup> file_content"
  events :: "event list"

text \<open>
  \<^verbatim>\<open>load_data(ticker, start_date, end_date)\<close>: the provider's frame, with its index
  assigned to the column \<^verbatim>\<open>'Date'\<close>.
\<close>

definition load_data :: "world \<Rightarrow> string \<Rightarrow> string \<Rightarrow> string \<Rightarrow> frame" where
  "load_data w ticker start_date end_date =
     (let stock_data = provider w ticker start_date end_date
      in set_column stock_data ''Date'' (DateCol (index stock_data)))"

text \<open>\<^verbatim>\<open>plt.figure(figsize=(14, 7))\<close>: a new, empty figure.\<close>

definition figure :: "nat \<times> nat \<Rightarrow> chart" where
  "figure dims = \<lparr>figsize = dims, lines = [], title = [], xlabel = [], ylabel = [],
     legend = False, grid = False\<rparr>"

text \<open>
  \<^verbatim>\<open>plt.plot(data[xname], data[yname], label=..., color=...)\<close>: both columns are read,
  the horizontal one first; matplotlib rejects coordinates of different lengths.
\<close>

definition plot :: "frame \<Rightarrow> string \<Rightarrow> string \<Rightarrow> string \<Rightarrow> string \<Rightarrow> chart \<Rightarrow> error + chart" where
  "plot data xname yname label color fig =
     (case get_column data xname of
        Inl e \<Rightarrow> Inl e
      | Inr x \<Rightarrow>
          (case get_column data yname of
             Inl e \<Rightarrow> Inl e
           | Inr y \<Rightarrow>
               if col_length x \<noteq> col_length y then Inl ValueError
               else Inr (fig\<lparr>lines := lines fig @
                                [\<lparr>line_x = x, line_y = y, line_label = label,
                                  line_color = color\<rparr>]\<rparr>)))"

definition savefig :: "string \<Rightarrow> chart \<Rightarrow> world \<Rightarrow> world" where
  "savefig name fig w =
     w\<lparr>files := (files w)(name \<mapsto> Image fig), events := events w @ [Saved name fig]\<rparr>"

definition show_chart :: "chart \<Rightarrow> world \<Rightarrow> world" where
  "show_chart fig w = w\<lparr>events := events w @ [Shown fig]\<rparr>"

text \<open>
  \<^verbatim>\<open>visualize_predictions(data)\<close>: three lines over \<^verbatim>\<open>data['Date']\<close>, the
  decorations, \<^verbatim>\<open>plt.savefig("nvidia_stock_price_prediction.png")\<close>, then
  \<^verbatim>\<open>plt.show()\<close>. The Python function has no \<^verbatim>\<open>return\<close> statement: the model returns
  the world it leaves, or the error of a column read or a plot, raised before anything is
  saved or shown.
\<close>

definition visualize_predictions :: "frame \<Rightarrow> world \<Rightarrow> error + world" where
  "visualize_predictions data w =
     (case plot data ''Date'' ''Close'' ''Actual Prices'' ''blue'' (figure (14, 7)) of
        Inl e \<Rightarrow> Inl e
      | Inr fig1 \<Rightarrow>
          (case plot data ''Date'' ''Moving_Avg'' ''Moving Average (window=5)'' ''green'' fig1 of
             Inl e \<Rightarrow> Inl e
           | Inr fig2 \<Rightarrow>
               (case plot data ''Date'' ''Linear_Regression_Pred''
                       ''Linear Regression Prediction'' ''red'' fig2 of
                  Inl e \<Rightarrow> Inl e
                | Inr fig3 \<Rightarrow>
                    (let fig = fig3\<lparr>title := ''Nvidia Stock Price Prediction'',
                                     xlabel := ''Date'', ylabel := ''Price (USD)'',
                                     legend := True, grid := True\<rparr>
                     in Inr (show_chart fig
                               (savefig ''nvidia_stock_price_prediction.png'' fig w))))))"

section \<open>Concrete series\<close>

text \<open>The specification's scenario: ten records with the closing prices 1 to 10.\<close>

definition ten_days :: frame where
  "ten_days = \<lparr>index = [0, 1, 2, 3, 4, 5, 6, 7, 8, 9],
     columns = [(''Close'', FloatCol (map Some [1, 2, 3, 4, 5, 6, 7, 8, 9, 10]))]\<rparr>"

text \<open>Seven records, a length that is not a multiple of five.\<close>

definition week :: frame where
  "week = \<lparr>index = [10, 11, 12, 13, 14, 17, 18],
     columns = [(''Close'', FloatCol (map Some [1, 3, 2, 5, 4, 8, 7]))]\<rparr>"


text \<open>
  A two-record series as the stages leave it for the visualizer: the loader's
  \<^verbatim>\<open>'Date'\<close> column and the derived columns of both stages.
\<close>

definition two_days :: frame where
  "two_days = \<lparr>index = [0, 1],
     columns = [(''Close'', FloatCol [Some 1, Some 5]),
                (''Date'', DateCol [0, 1]),
                (''Moving_Avg'', FloatCol [None, None]),
                (''Days'', IntCol [0, 1]),
                (''Linear_Regression_Pred'', FloatCol [None, Some 1])]\<rparr>"

text \<open>
  A world whose provider answers every request with the ten-record series, and whose
  working directory already holds a chart under the program's file name.
\<close>

definition market :: world where
  "market = \<lparr>provider = (\<lambda>ticker start_date end_date. ten_days),
     files = [''nvidia_stock_price_prediction.png'' \<mapsto> Image (figure (1, 1))],
     events = []\<rparr>"

text \<open>
  A world with a previously saved table in the working directory and a provider that has
  no data (it answers with the empty frame).
\<close>

definition offline :: world where
  "offline = \<lparr>provider = (\<lambda>ticker start_date end_date. \<lparr>index = [], columns = []\<rparr>),
     files = [''nvidia_stock_data.csv'' \<mapsto> Table ten_days],
     events = []\<rparr>"

section \<open>Frames: reading and assigning columns\<close>

lemma map_of_assign_same: "map_of (assign name c ps) name = Some c"
  by (induction ps) auto

lemma map_of_assign_other: "k \<noteq> name \<Longrightarrow> map_of (assign name c ps) k = map_of ps k"
  by (induction ps) auto

lemma assign_fresh: "name \<notin> fst ` set ps \<Longrightarrow> assign name c ps = ps @ [(name, c)]"
  by (induction ps) auto

lemma map_fst_assign_present:
  "name \<in> fst ` set ps \<Longrightarrow> map fst (assign name c ps) = map fst ps"
  by (induction ps) auto

lemma get_column_set_column_same [simp]: "get_column (set_column df name c) name = Inr c"
  by (simp add: get_column_def set_column_def map_of_assign_same)

lemma get_column_set_column_other [simp]:
  "k \<noteq> name \<Longrightarrow> get_column (set_column df name c) k = get_column df k"
  by (simp add: get_column_def set_column_def map_of_assign_other)

lemma index_set_column [simp]: "index (set_column df name c) = index df"
  by (simp add: set_column_def)

lemma len_set_column [simp]: "len (set_column df name c) = len df"
  by (simp add: len_def)

lemma wf_frame_get_column:
  assumes "wf_frame df" "get_column df name = Inr c"
  shows "col_length c = len df"
proof -
  from assms(2) have "map_of (columns df) name = Some c"
    by (simp add: get_column_def split: option.splits)
  then have "(name, c) \<in> set (columns df)" by (rule map_of_SomeD)
  with assms(1) show ?thesis by (auto simp: wf_frame_def list_all_iff)
qed

lemma float_values_length: "float_values c = Inr vs \<Longrightarrow> length vs = col_length c"
  by (cases c) auto

lemma assign_assign: "assign name c' (assign name c ps) = assign name c' ps"
  by (induction ps) auto

lemma set_column_twice: "set_column (set_column df name c) name c' = set_column df name c'"
  by (simp add: set_column_def assign_assign)

lemma columns_set_column_fresh:
  "name \<notin> set (column_names df) \<Longrightarrow>
   columns (set_column df name c) = columns df @ [(name, c)]"
  by (simp add: set_column_def column_names_def assign_fresh)

lemma column_names_set_column_present:
  "name \<in> set (column_names df) \<Longrightarrow>
   column_names (set_column df name c) = column_names df"
  by (simp add: column_names_def set_column_def map_fst_assign_present)

section \<open>Moving-average stage: the rolling mean\<close>

lemma observed_map_Some: "observed (map Some xs) = xs"
  by (induction xs) (simp_all add: observed_def)

lemma window_at_map: "window_at w i (map f xs) = map f (window_at w i xs)"
  by (simp add: window_at_def take_map drop_map)

lemma length_window_at: "i < length xs \<Longrightarrow> length (window_at w i xs) = min w (Suc i)"
  by (auto simp: window_at_def)

lemma sum_list_window_at:
  fixes xs :: "real list"
  assumes "i < length xs" "w \<le> Suc i"
  shows "sum_list (window_at w i xs) = (\<Sum>j = Suc i - w..i. xs ! j)"
proof -
  have len: "length (window_at w i xs) = w"
    using assms by (simp add: length_window_at)
  have nth: "window_at w i xs ! k = xs ! (Suc i - w + k)" if "k < w" for k
    using that assms by (simp add: window_at_def)
  have "sum_list (window_at w i xs) = (\<Sum>k = 0..<w. window_at w i xs ! k)"
    using len by (simp add: sum_list_sum_nth)
  also have "\<dots> = (\<Sum>k = 0..<w. xs ! (Suc i - w + k))"
    using nth by simp
  also have "\<dots> = (\<Sum>j = Suc i - w..<Suc i - w + w. xs ! j)"
    by (rule sum.reindex_bij_witness[where i="\<lambda>j. j - (Suc i - w)" and j="\<lambda>k. Suc i - w + k"]) auto
  also have "\<dots> = (\<Sum>j = Suc i - w..i. xs ! j)"
    using assms by (simp add: atLeastLessThanSuc_atLeastAtMost)
  finally show ?thesis .
qed

lemma rolling_mean_nth_short:
  assumes "i < length xs" "Suc i < w"
  shows "rolling_mean w (map Some xs) ! i = None"
  using assms by (simp add: rolling_mean_def window_mean_def Let_def window_at_map observed_map_Some length_window_at)

lemma rolling_mean_nth_full:
  assumes "i < length xs" "w \<le> Suc i" "0 < w"
  shows "rolling_mean w (map Some xs) ! i = Some ((\<Sum>j = Suc i - w..i. xs ! j) / real w)"
proof -
  have len: "length (window_at w i xs) = w"
    using assms by (simp add: length_window_at)
  have "rolling_mean w (map Some xs) ! i = window_mean w (map Some (window_at w i xs))"
    using assms by (simp add: rolling_mean_def window_at_map)
  also have "\<dots> = Some (sum_list (window_at w i xs) / real w)"
  proof -
    have "window_at w i xs \<noteq> []" using len assms by auto
    then show ?thesis using len by (simp add: window_mean_def Let_def observed_map_Some)
  qed
  finally show ?thesis
    using assms by (simp add: sum_list_window_at)
qed

lemma rolling_mean_complete:
  assumes "1 \<le> w" "w \<le> length xs"
  shows "rolling_mean w (map Some xs) =
         replicate (w - 1) None @ map (\<lambda>i. Some ((\<Sum>j = Suc i - w..i. xs ! j) / real w)) [w - 1..<length xs]"
    (is "?l = ?r")
proof (rule nth_equalityI)
  show "length ?l = length ?r"
    using assms by (simp add: rolling_mean_def)
next
  fix i assume "i < length ?l"
  then have i: "i < length xs" by (simp add: rolling_mean_def)
  show "?l ! i = ?r ! i"
  proof (cases "Suc i < w")
    case True
    then have "i < w - 1" by simp
    then have "?r ! i = None" by (simp add: nth_append)
    then show ?thesis using i True by (simp add: rolling_mean_nth_short)
  next
    case False
    then have ge: "w - 1 \<le> i" by simp
    then have "?r ! i = map (\<lambda>i. Some ((\<Sum>j = Suc i - w..i. xs ! j) / real w)) [w - 1..<length xs] ! (i - (w - 1))"
      by (simp add: nth_append)
    also have "\<dots> = Some ((\<Sum>j = Suc i - w..i. xs ! j) / real w)"
    proof -
      have "[w - 1..<length xs] ! (i - (w - 1)) = i" using ge i by simp
      moreover have "i - (w - 1) < length [w - 1..<length xs]" using ge i by simp
      ultimately show ?thesis by (simp only: nth_map)
    qed
    finally show ?thesis using i False assms by (simp add: rolling_mean_nth_full)
  qed
qed


lemma ten_days_moving_average:
  "moving_average_prediction ten_days 5 =
     Inr \<lparr>index = [0, 1, 2, 3, 4, 5, 6, 7, 8, 9],
          columns = [(''Close'', FloatCol (map Some [1, 2, 3, 4, 5, 6, 7, 8, 9, 10])),
                     (''Moving_Avg'', FloatCol [None, None, None, None, Some 3, Some 4, Some 5,
                                                Some 6, Some 7, Some 8])]\<rparr>"
  by (simp add: moving_average_prediction_def ten_days_def get_column_def rolling_mean_def
      window_mean_def window_at_def observed_def set_column_def upt_rec numeral_eq_Suc)

text \<open>
  Claim C1. For a series whose closing prices \<open>closes\<close> are all present and a window
  \<open>w\<close> with \<open>1 \<le> w \<le> length closes\<close>, \<^verbatim>\<open>moving_average_prediction\<close> succeeds, and
  the column \<^verbatim>\<open>'Moving_Avg'\<close> read from the frame it returns is made of \<open>w - 1\<close> missing
  values followed, for each position \<open>i \<ge> w - 1\<close>, by the arithmetic mean of the closing
  prices at the positions \<open>i - w + 1\<close> to \<open>i\<close>; the index is the one of the series.
\<close>

theorem moving_average_column:
  assumes close: "get_column data ''Close'' = Inr c"
    and fl: "float_values c = Inr (map Some closes)"
    and w: "1 \<le> w" "w \<le> length closes"
  shows "\<exists>data'. moving_average_prediction data (int w) = Inr data'
           \<and> get_column data' ''Moving_Avg'' =
               Inr (FloatCol (replicate (w - 1) None @
                      map (\<lambda>i. Some ((\<Sum>j = Suc i - w..i. closes ! j) / real w))
                        [w - 1..<length closes]))
           \<and> index data' = index data"
proof -
  let ?col = "FloatCol (replicate (w - 1) None @
                map (\<lambda>i. Some ((\<Sum>j = Suc i - w..i. closes ! j) / real w))
                  [w - 1..<length closes])"
  have "moving_average_prediction data (int w) = Inr (set_column data ''Moving_Avg'' ?col)"
    using close fl w by (simp add: moving_average_prediction_def rolling_mean_complete)
  moreover have "get_column (set_column data ''Moving_Avg'' ?col) ''Moving_Avg'' = Inr ?col"
    by (rule get_column_set_column_same)
  moreover have "index (set_column data ''Moving_Avg'' ?col) = index data"
    by (rule index_set_column)
  ultimately show ?thesis by (intro exI [of _ "set_column data ''Moving_Avg'' ?col"] conjI)
qed

text \<open>
  The scenario of the specification: the closing prices 1 to 10 with window 5 give
  four missing values, then 3, 4, 5, 6, 7, 8.
\<close>

theorem moving_average_column_witness:
  "get_column ten_days ''Close'' = Inr (FloatCol (map Some [1, 2, 3, 4, 5, 6, 7, 8, 9, 10]))
   \<and> float_values (FloatCol (map Some [1, 2, 3, 4, 5, 6, 7, 8, 9, 10]))
        = Inr (map Some [1, 2, 3, 4, 5, 6, 7, 8, 9, 10])
   \<and> (1::nat) \<le> 5 \<and> (5::nat) \<le> length [1, 2, 3, 4, 5, 6, 7, 8, 9, 10 :: real]
   \<and> moving_average_prediction ten_days 5 =
       Inr \<lparr>index = [0, 1, 2, 3, 4, 5, 6, 7, 8, 9],
            columns = [(''Close'', FloatCol (map Some [1, 2, 3, 4, 5, 6, 7, 8, 9, 10])),
                       (''Moving_Avg'', FloatCol [None, None, None, None, Some 3, Some 4, Some 5,
                                                  Some 6, Some 7, Some 8])]\<rparr>
   \<and> get_column \<lparr>index = [0, 1, 2, 3, 4, 5, 6, 7, 8, 9],
            columns = [(''Close'', FloatCol (map Some [1, 2, 3, 4, 5, 6, 7, 8, 9, 10])),
                       (''Moving_Avg'', FloatCol [None, None, None, None, Some 3, Some 4, Some 5,
                                                  Some 6, Some 7, Some 8])]\<rparr> ''Moving_Avg''
       = Inr (FloatCol [None, None, None, None, Some 3, Some 4, Some 5, Some 6, Some 7, Some 8])"
proof -
  let ?out = "\<lparr>index = [0, 1, 2, 3, 4, 5, 6, 7, 8, 9],
            columns = [(''Close'', FloatCol (map Some [1, 2, 3, 4, 5, 6, 7, 8, 9, 10])),
                       (''Moving_Avg'', FloatCol [None, None, None, None, Some 3, Some 4, Some 5,
                                                  Some 6, Some 7, Some 8])]\<rparr>"
  have h1: "get_column ten_days ''Close'' = Inr (FloatCol (map Some [1, 2, 3, 4, 5, 6, 7, 8, 9, 10]))"
    by (simp add: ten_days_def get_column_def)
  have h0: "float_values (FloatCol (map Some [1, 2, 3, 4, 5, 6, 7, 8, 9, 10]))
        = Inr (map Some [1, 2, 3, 4, 5, 6, 7, 8, 9, 10])" by simp
  have h2: "(1::nat) \<le> 5" by simp
  have h3: "(5::nat) \<le> length [1, 2, 3, 4, 5, 6, 7, 8, 9, 10 :: real]" by simp
  have ev: "replicate (5 - 1) None @
              map (\<lambda>i. Some ((\<Sum>j = Suc i - 5..i. [1, 2, 3, 4, 5, 6, 7, 8, 9, 10 :: real] ! j) / real 5))
                [5 - 1..<length [1, 2, 3, 4, 5, 6, 7, 8, 9, 10 :: real]]
            = [None, None, None, None, Some 3, Some 4, Some 5, Some 6, Some 7, Some 8]"
    by (simp add: upt_rec numeral_eq_Suc)
  from moving_average_column [OF h1 h0 h2 h3]
  obtain data' where r: "moving_average_prediction ten_days (int 5) = Inr data'"
    and g: "get_column data' ''Moving_Avg''
              = Inr (FloatCol [None, None, None, None, Some 3, Some 4, Some 5, Some 6, Some 7, Some 8])"
    unfolding ev by (elim exE conjE)
  from r have d: "data' = ?out" by (simp add: ten_days_moving_average)
  have r': "moving_average_prediction ten_days 5 = Inr ?out" by (rule ten_days_moving_average)
  from g have g': "get_column ?out ''Moving_Avg''
       = Inr (FloatCol [None, None, None, None, Some 3, Some 4, Some 5, Some 6, Some 7, Some 8])"
    unfolding d .
  from h1 h0 h2 h3 r' g' show ?thesis by (simp only: simp_thms)
qed

section \<open>Trend forecaster: the chronological split\<close>

lemma ceiling_fifth_rat: "nat \<lceil>(0.2::rat) * of_nat n\<rceil> = (n + 4) div 5"
proof -
  have "nat \<lceil>(0.2::rat) * of_nat n\<rceil> = nat \<lceil>rat_of_int (int n) / rat_of_int 5\<rceil>"
    by simp
  also have "\<dots> = nat (- (- int n div 5))"
    by (simp only: ceiling_divide_eq_div)
  also have "\<dots> = (n + 4) div 5"
    by linarith
  finally show ?thesis .
qed

lemma ceiling_fifth_real: "nat \<lceil>(0.2::real) * real n\<rceil> = (n + 4) div 5"
proof -
  have "nat \<lceil>(0.2::real) * real n\<rceil> = nat \<lceil>real_of_int (int n) / real_of_int 5\<rceil>"
    by simp
  also have "\<dots> = nat (- (- int n div 5))"
    by (simp only: ceiling_divide_eq_div)
  also have "\<dots> = (n + 4) div 5"
    by linarith
  finally show ?thesis .
qed

lemma validate_shuffle_split_fifth:
  assumes "2 \<le> n"
  shows "validate_shuffle_split n 0.2 = Inr (n - (n + 4) div 5, (n + 4) div 5)"
proof -
  have pos: "n - (n + 4) div 5 \<noteq> 0" using assms by linarith
  show ?thesis
    unfolding validate_shuffle_split_def Let_def ceiling_fifth_rat using pos by simp
qed

lemma train_test_split_fifth:
  assumes "length y = length X" "2 \<le> length X"
  shows "train_test_split X y 0.2 =
           Inr (take (length X - (length X + 4) div 5) X, drop (length X - (length X + 4) div 5) X,
                take (length X - (length X + 4) div 5) y, drop (length X - (length X + 4) div 5) y)"
proof -
  let ?n = "length X"
  let ?t = "(?n + 4) div 5"
  have le: "?t \<le> ?n" using assms(2) by linarith
  have "take ?t (drop (?n - ?t) X) = drop (?n - ?t) X" using le by simp
  moreover have "take ?t (drop (?n - ?t) y) = drop (?n - ?t) y" using le assms(1) by simp
  ultimately show ?thesis
    unfolding train_test_split_def validate_shuffle_split_fifth [OF assms(2)]
    using assms(1) by simp
qed

lemma lr_split_assign_days:
  assumes wf: "wf_frame data"
    and close: "get_column data ''Close'' = Inr c"
    and fl: "float_values c = Inr closes"
    and n: "2 \<le> len data"
  shows "lr_split (assign_days data) =
     Inr (take (len data - (len data + 4) div 5) (labelled data (map (\<lambda>i. Some (real i)) [0..<len data])),
          drop (len data - (len data + 4) div 5) (labelled data (map (\<lambda>i. Some (real i)) [0..<len data])),
          take (len data - (len data + 4) div 5) (labelled data closes),
          drop (len data - (len data + 4) div 5) (labelled data closes))"
proof -
  have lc: "length closes = len data"
    using wf close fl by (simp add: float_values_length wf_frame_get_column)
  have c1: "get_column (assign_days data) ''Close'' = Inr c"
    using close by (simp add: assign_days_def)
  have d1: "get_column (assign_days data) ''Days'' = Inr (IntCol (map int [0..<len data]))"
    by (simp add: assign_days_def)
  have lab: "labelled (assign_days data) vs = labelled data vs" for vs :: "real option list"
    by (simp add: labelled_def assign_days_def)
  have days: "map (\<lambda>i. Some (real_of_int i)) (map int [0..<len data]) = map (\<lambda>i. Some (real i)) [0..<len data]"
    by simp
  have lX: "length (labelled data (map (\<lambda>i. Some (real i)) [0..<len data])) = len data"
    by (simp add: labelled_def len_def)
  have ly: "length (labelled data closes) = len data"
    using lc by (simp add: labelled_def len_def)
  have "lr_split (assign_days data) =
          train_test_split (labelled data (map (\<lambda>i. Some (real i)) [0..<len data])) (labelled data closes) 0.2"
    unfolding lr_split_def c1 d1 using fl by (simp add: lab days del: map_map)
  also have "\<dots> = Inr (take (len data - (len data + 4) div 5) (labelled data (map (\<lambda>i. Some (real i)) [0..<len data])),
          drop (len data - (len data + 4) div 5) (labelled data (map (\<lambda>i. Some (real i)) [0..<len data])),
          take (len data - (len data + 4) div 5) (labelled data closes),
          drop (len data - (len data + 4) div 5) (labelled data closes))"
    using train_test_split_fifth [of "labelled data closes" "labelled data (map (\<lambda>i. Some (real i)) [0..<len data])"]
      lX ly n by simp
  finally show ?thesis .
qed

lemma snd_days_slices:
  assumes "k \<le> len data"
  shows "map snd (take k (labelled data (map (\<lambda>i. Some (real i)) [0..<len data])))
           = map (\<lambda>i. Some (real i)) [0..<k]"
    and "map snd (drop k (labelled data (map (\<lambda>i. Some (real i)) [0..<len data])))
           = map (\<lambda>i. Some (real i)) [k..<len data]"
    and "map fst (drop k (labelled data (map (\<lambda>i. Some (real i)) [0..<len data])))
           = drop k (index data)"
proof -
  let ?days = "map (\<lambda>i. Some (real i)) [0..<len data]"
  have sndX: "map snd (labelled data ?days) = ?days"
    by (simp add: labelled_def len_def)
  have fstX: "map fst (labelled data ?days) = index data"
    by (simp add: labelled_def len_def)
  show "map snd (take k (labelled data ?days)) = map (\<lambda>i. Some (real i)) [0..<k]"
    using assms by (simp add: sndX take_map flip: take_map [of k snd])
  show "map snd (drop k (labelled data ?days)) = map (\<lambda>i. Some (real i)) [k..<len data]"
    by (simp add: sndX drop_map flip: drop_map [of k snd])
  show "map fst (drop k (labelled data ?days)) = drop k (index data)"
    by (simp add: fstX flip: drop_map [of k fst])
qed

section \<open>Trend forecaster: the frame it leaves\<close>

lemma loc_assign_result:
  "loc_assign df labels name vs = Inr df' \<Longrightarrow> \<exists>c. df' = set_column df name c"
  by (auto simp: loc_assign_def Let_def split: sum.splits if_splits)

lemma lr_result_cases:
  "fst (linear_regression_prediction data) = assign_days data \<or>
   (\<exists>c. fst (linear_regression_prediction data) =
          set_column (assign_days data) ''Linear_Regression_Pred'' c)"
proof (cases "lr_evaluate (assign_days data)")
  case (Inl e)
  then show ?thesis by (simp add: linear_regression_prediction_def)
next
  case (Inr r)
  obtain ti yp mse where r: "r = (ti, yp, mse)" by (cases r)
  let ?d2 = "set_column (assign_days data) ''Linear_Regression_Pred''
               (FloatCol (replicate (len (assign_days data)) None))"
  show ?thesis
  proof (cases "loc_assign ?d2 ti ''Linear_Regression_Pred'' yp")
    case (Inl e)
    with \<open>lr_evaluate (assign_days data) = Inr r\<close> r show ?thesis
      by (auto simp: linear_regression_prediction_def Let_def)
  next
    case (Inr d3)
    then obtain c where "d3 = set_column ?d2 ''Linear_Regression_Pred'' c"
      using loc_assign_result by blast
    then have "d3 = set_column (assign_days data) ''Linear_Regression_Pred'' c"
      by (simp add: set_column_twice)
    with Inr \<open>lr_evaluate (assign_days data) = Inr r\<close> r show ?thesis
      by (auto simp: linear_regression_prediction_def Let_def)
  qed
qed

text \<open>
  Claim C5. Whatever the series and however the call ends, \<^verbatim>\<open>linear_regression_prediction\<close>
  leaves a \<^verbatim>\<open>'Days'\<close> column holding the integers \<open>0, 1, ..., n - 1\<close>: one for each of
  the \<open>n\<close> records, strictly increasing, over the unchanged index.
\<close>

theorem days_column:
  "get_column (fst (linear_regression_prediction data)) ''Days''
     = Inr (IntCol (map int [0..<len data]))
   \<and> index (fst (linear_regression_prediction data)) = index data
   \<and> length (map int [0..<len data]) = length (index data)
   \<and> sorted_wrt (<) (map int [0..<len data])"
proof -
  have "get_column (fst (linear_regression_prediction data)) ''Days''
          = Inr (IntCol (map int [0..<len data]))
        \<and> index (fst (linear_regression_prediction data)) = index data"
    using lr_result_cases [of data] by (auto simp: assign_days_def)
  moreover have "sorted_wrt (<) (map int [0..<len data])"
    by (simp add: sorted_wrt_map)
  ultimately show ?thesis by (simp add: len_def)
qed

section \<open>Trend forecaster: fit, prediction and write-back\<close>

lemma finite_values_map_Some [simp]: "finite_values (map Some xs) = Inr xs"
  by (simp add: finite_values_def comp_def image_iff)

lemma lr_evaluate_assign_days:
  assumes wf: "wf_frame data"
    and close: "get_column data ''Close'' = Inr c"
    and fl: "float_values c = Inr (map Some cs)"
    and n: "2 \<le> len data"
  defines "k \<equiv> len data - (len data + 4) div 5"
  defines "y_pred \<equiv> predict (fit (map real [0..<k]) (take k cs)) (map real [k..<len data])"
  shows "lr_evaluate (assign_days data) =
           Inr (drop k (index data), y_pred,
                sum_list (map2 (\<lambda>a p. (a - p)\<^sup>2) (drop k cs) y_pred) / real (len data - k))"
proof -
  let ?days = "map (\<lambda>i. Some (real i)) [0..<len data]"
  have lc: "length cs = len data"
    using wf close fl float_values_length [OF fl] by (simp add: wf_frame_get_column)
  have k: "k \<le> len data" "k < len data" using n by (simp_all add: k_def)
  have Xtr: "map snd (take k (labelled data ?days)) = map Some (map real [0..<k])"
    using snd_days_slices(1) [OF k(1)] by simp
  have Xte: "map snd (drop k (labelled data ?days)) = map Some (map real [k..<len data])"
    using snd_days_slices(2) [OF k(1)] by simp
  have lab: "map fst (drop k (labelled data ?days)) = drop k (index data)"
    by (rule snd_days_slices(3) [OF k(1)])
  have sndy: "map snd (labelled data (map Some cs)) = map Some cs"
    using lc by (simp add: labelled_def len_def)
  have ytr: "map snd (take k (labelled data (map Some cs))) = map Some (take k cs)"
    by (simp add: sndy take_map flip: take_map [of k snd])
  have yte: "map snd (drop k (labelled data (map Some cs))) = map Some (drop k cs)"
    by (simp add: sndy drop_map flip: drop_map [of k snd])
  have lp: "length y_pred = len data - k"
    by (simp add: y_pred_def predict_def)
  have mse: "mean_squared_error (map Some (drop k cs)) y_pred =
               Inr (sum_list (map2 (\<lambda>a p. (a - p)\<^sup>2) (drop k cs) y_pred) / real (len data - k))"
    using k lc lp by (simp add: mean_squared_error_def)
  show ?thesis
    unfolding lr_evaluate_def lr_split_assign_days [OF wf close fl n, folded k_def]
    by (simp only: prod.case sum.case Xtr Xte ytr yte lab finite_values_map_Some Let_def
          mse y_pred_def [symmetric])
qed

lemma filter_eq_upt: "j < n \<Longrightarrow> filter (\<lambda>i. i = j) [0..<n] = [j]"
  by (induction n) (auto simp: less_Suc_eq)

lemma positions_of_label:
  assumes "distinct idx" "j < length idx"
  shows "filter (\<lambda>i. idx ! i = idx ! j) [0..<length idx] = [j]"
proof -
  have "filter (\<lambda>i. idx ! i = idx ! j) [0..<length idx] = filter (\<lambda>i. i = j) [0..<length idx]"
    using assms by (intro filter_cong) (auto simp: nth_eq_iff_index_eq)
  then show ?thesis using assms by (simp add: filter_eq_upt)
qed

lemma loc_positions_drop:
  assumes "distinct idx" "k \<le> length idx"
  shows "loc_positions idx (drop k idx) = [k..<length idx]"
proof -
  have d: "drop k idx = map (\<lambda>j. idx ! j) [k..<length idx]"
    by (rule nth_equalityI) simp_all
  have "loc_positions idx (drop k idx)
          = concat (map (\<lambda>j. filter (\<lambda>i. idx ! i = idx ! j) [0..<length idx]) [k..<length idx])"
    unfolding loc_positions_def by (subst d) (simp add: comp_def)
  also have "\<dots> = concat (map (\<lambda>j. [j]) [k..<length idx])"
    using assms by (intro arg_cong [where f = concat] map_cong) (auto simp: positions_of_label)
  also have "\<dots> = [k..<length idx]"
    by (induction "[k..<length idx]") (simp_all add: concat_map_singleton)
  finally show ?thesis .
qed

lemma put_all_range:
  "k + length vs \<le> length xs \<Longrightarrow>
   put_all (zip [k..<k + length vs] vs) xs = take k xs @ map Some vs @ drop (k + length vs) xs"
proof (induction vs arbitrary: k xs)
  case Nil
  then show ?case by simp
next
  case (Cons v vs)
  have "put_all (zip [k..<k + length (v # vs)] (v # vs)) xs
        = put_all (zip [Suc k..<Suc k + length vs] vs) (xs[k := Some v])"
    by (simp add: upt_rec)
  also have "\<dots> = take (Suc k) (xs[k := Some v]) @ map Some vs
                     @ drop (Suc k + length vs) (xs[k := Some v])"
    using Cons.prems by (intro Cons.IH) simp
  also have "\<dots> = take k xs @ map Some (v # vs) @ drop (k + length (v # vs)) xs"
    using Cons.prems by (simp add: take_Suc_conv_app_nth)
  finally show ?case .
qed

lemma loc_assign_trailing:
  assumes dist: "distinct (index df)"
    and col: "get_column df name = Inr (FloatCol (replicate (len df) None))"
    and k: "k \<le> len df" and vs: "length vs = len df - k"
  shows "loc_assign df (drop k (index df)) name vs =
           Inr (set_column df name (FloatCol (replicate k None @ map Some vs)))"
proof -
  have sub: "set (drop k (index df)) \<subseteq> set (index df)" by (rule set_drop_subset)
  have ps: "loc_positions (index df) (drop k (index df)) = [k..<k + length vs]"
    using dist k vs by (simp add: loc_positions_drop len_def)
  have "put_all (zip [k..<k + length vs] vs) (replicate (len df) None)
          = take k (replicate (len df) None) @ map Some vs
              @ drop (k + length vs) (replicate (len df) None)"
    using k vs by (intro put_all_range) simp
  also have "\<dots> = replicate k None @ map Some vs"
    using k vs by (simp add: min_def)
  finally have "put_all (zip [k..<k + length vs] vs) (replicate (len df) None)
          = replicate k None @ map Some vs" .
  then show ?thesis
    unfolding loc_assign_def col using sub ps by (simp add: Let_def)
qed

lemma lr_success:
  assumes wf: "wf_frame data"
    and dist: "distinct (index data)"
    and close: "get_column data ''Close'' = Inr c"
    and fl: "float_values c = Inr (map Some cs)"
    and n: "2 \<le> len data"
  defines "k \<equiv> len data - (len data + 4) div 5"
  defines "y_pred \<equiv> predict (fit (map real [0..<k]) (take k cs)) (map real [k..<len data])"
  shows "linear_regression_prediction data =
           (set_column (assign_days data) ''Linear_Regression_Pred''
              (FloatCol (replicate k None @ map Some y_pred)),
            Inr (sum_list (map2 (\<lambda>a p. (a - p)\<^sup>2) (drop k cs) y_pred) / real (len data - k)))"
proof -
  let ?d2 = "set_column (assign_days data) ''Linear_Regression_Pred''
               (FloatCol (replicate (len (assign_days data)) None))"
  have ev: "lr_evaluate (assign_days data) =
              Inr (drop k (index data), y_pred,
                   sum_list (map2 (\<lambda>a p. (a - p)\<^sup>2) (drop k cs) y_pred) / real (len data - k))"
    unfolding k_def y_pred_def by (rule lr_evaluate_assign_days [OF wf close fl n])
  have k: "k \<le> len ?d2" by (simp add: k_def assign_days_def)
  have lp: "length y_pred = len ?d2 - k"
    by (simp add: y_pred_def predict_def assign_days_def)
  have "loc_assign ?d2 (drop k (index ?d2)) ''Linear_Regression_Pred'' y_pred =
          Inr (set_column ?d2 ''Linear_Regression_Pred''
                 (FloatCol (replicate k None @ map Some y_pred)))"
    using dist k lp by (intro loc_assign_trailing) (simp_all add: assign_days_def)
  then have la: "loc_assign ?d2 (drop k (index data)) ''Linear_Regression_Pred'' y_pred =
          Inr (set_column (assign_days data) ''Linear_Regression_Pred''
                 (FloatCol (replicate k None @ map Some y_pred)))"
    by (simp add: set_column_twice assign_days_def)
  show ?thesis
    unfolding linear_regression_prediction_def Let_def ev
    by (simp only: prod.case sum.case la)
qed

section \<open>Trend forecaster: the fitted line is the least-squares line\<close>

lemma sum_list_centred:
  assumes "xs \<noteq> []"
  shows "(\<Sum>x\<leftarrow>xs. x - mean xs) = 0"
proof -
  have "(\<Sum>x\<leftarrow>xs. x - c) = sum_list xs - real (length xs) * c" for c
    by (induction xs) (simp_all add: algebra_simps)
  then show ?thesis using assms by (simp add: mean_def)
qed

lemma residuals_split:
  assumes "length xs = length ys"
  shows "squared_residuals a b xs ys =
           (\<Sum>(x, y)\<leftarrow>zip xs ys. (y - q)\<^sup>2)
           - 2 * a * (\<Sum>(x, y)\<leftarrow>zip xs ys. (x - p) * (y - q))
           + a\<^sup>2 * (\<Sum>x\<leftarrow>xs. (x - p)\<^sup>2)
           + 2 * (q - p * a - b) * ((\<Sum>y\<leftarrow>ys. y - q) - a * (\<Sum>x\<leftarrow>xs. x - p))
           + real (length xs) * (q - p * a - b)\<^sup>2"
  using assms unfolding squared_residuals_def
  by (induction xs ys rule: list_induct2) (simp_all add: algebra_simps power2_eq_square)

lemma no_variance:
  fixes xs ys :: "real list"
  assumes "length xs = length ys" "(\<Sum>x\<leftarrow>xs. (x - p)\<^sup>2) = 0"
  shows "(\<Sum>(x, y)\<leftarrow>zip xs ys. (x - p) * (y - q)) = 0"
proof -
  have "(\<Sum>x\<leftarrow>zs. (x - p)\<^sup>2) = 0 \<Longrightarrow> \<forall>x\<in>set zs. x = p" for zs :: "real list"
  proof (induction zs)
    case Nil
    then show ?case by simp
  next
    case (Cons z zs)
    have "0 \<le> (\<Sum>x\<leftarrow>zs. (x - p)\<^sup>2)" by (rule sum_list_nonneg) auto
    with Cons.prems have "(z - p)\<^sup>2 = 0" "(\<Sum>x\<leftarrow>zs. (x - p)\<^sup>2) = 0"
      by (simp_all add: add_nonneg_eq_0_iff)
    with Cons.IH show ?case by simp
  qed
  with assms(2) have "\<forall>x\<in>set xs. x = p" by blast
  with assms(1) show ?thesis
    by (induction xs ys rule: list_induct2) simp_all
qed

lemma fit_least_squares:
  assumes len: "length xs = length ys" and ne: "xs \<noteq> []"
  shows "squared_residuals (coef (fit xs ys)) (intercept (fit xs ys)) xs ys
           \<le> squared_residuals a b xs ys"
proof -
  define p where "p = mean xs"
  define q where "q = mean ys"
  define sxx where "sxx = (\<Sum>x\<leftarrow>xs. (x - p)\<^sup>2)"
  define sxy where "sxy = (\<Sum>(x, y)\<leftarrow>zip xs ys. (x - p) * (y - q))"
  define syy where "syy = (\<Sum>(x, y)\<leftarrow>zip xs ys. (y - q)\<^sup>2)"
  define m where "m = (if sxx = 0 then 0 else sxy / sxx)"
  have fit: "coef (fit xs ys) = m" "intercept (fit xs ys) = q - p * m"
    by (simp_all add: fit_def Let_def m_def sxx_def sxy_def p_def q_def)
  have zx: "(\<Sum>x\<leftarrow>xs. x - p) = 0" unfolding p_def using ne by (rule sum_list_centred)
  have "ys \<noteq> []" using len ne by auto
  then have zy: "(\<Sum>y\<leftarrow>ys. y - q) = 0" unfolding q_def by (rule sum_list_centred)
  have gen: "squared_residuals a' b' xs ys
               = syy - 2 * a' * sxy + a'\<^sup>2 * sxx + real (length xs) * (q - p * a' - b')\<^sup>2"
    for a' b'
    using residuals_split [OF len, of a' b' q p] by (simp add: zx zy sxx_def sxy_def syy_def)
  have sxx0: "0 \<le> sxx" unfolding sxx_def by (rule sum_list_nonneg) auto
  have best: "squared_residuals m (q - p * m) xs ys = syy - 2 * m * sxy + m\<^sup>2 * sxx"
    by (simp add: gen)
  have sq: "0 \<le> real (length xs) * (q - p * a - b)\<^sup>2" by simp
  have "syy - 2 * m * sxy + m\<^sup>2 * sxx \<le> syy - 2 * a * sxy + a\<^sup>2 * sxx"
  proof (cases "sxx = 0")
    case True
    then have "sxy = 0" unfolding sxx_def sxy_def using len by (intro no_variance)
    with True show ?thesis by (simp add: m_def)
  next
    case False
    then have "sxy = m * sxx" by (simp add: m_def)
    then have "syy - 2 * a * sxy + a\<^sup>2 * sxx - (syy - 2 * m * sxy + m\<^sup>2 * sxx)
                 = sxx * (a - m)\<^sup>2"
      by (simp add: algebra_simps power2_eq_square)
    moreover have "0 \<le> sxx * (a - m)\<^sup>2" using sxx0 by simp
    ultimately show ?thesis by linarith
  qed
  with sq have "squared_residuals m (q - p * m) xs ys \<le> squared_residuals a b xs ys"
    unfolding best gen [of a b] by linarith
  then show ?thesis by (simp add: fit)
qed

lemma sum_list_map2_drop:
  fixes f :: "real \<Rightarrow> real \<Rightarrow> real"
  assumes "length ps = length cs - k" "k \<le> length cs"
  shows "sum_list (map2 f (drop k cs) ps) = (\<Sum>i = k..<length cs. f (cs ! i) (ps ! (i - k)))"
proof -
  have "sum_list (map2 f (drop k cs) ps) = (\<Sum>j = 0..<length ps. map2 f (drop k cs) ps ! j)"
    using assms by (simp add: sum_list_sum_nth)
  also have "\<dots> = (\<Sum>j = 0..<length ps. f (cs ! (k + j)) (ps ! j))"
    using assms by (intro sum.cong) simp_all
  also have "\<dots> = (\<Sum>i = k..<length cs. f (cs ! i) (ps ! (i - k)))"
    using assms
    by (intro sum.reindex_bij_witness [where i = "\<lambda>i. i - k" and j = "\<lambda>j. k + j"]) auto
  finally show ?thesis .
qed

section \<open>Trend forecaster: the concrete series\<close>

lemma ten_days_facts:
  "wf_frame ten_days" "distinct (index ten_days)"
  "get_column ten_days ''Close'' = Inr (FloatCol (map Some [1, 2, 3, 4, 5, 6, 7, 8, 9, 10]))"
  "len ten_days = 10"
  by (simp_all add: wf_frame_def ten_days_def len_def get_column_def)

lemma week_facts:
  "wf_frame week" "distinct (index week)"
  "get_column week ''Close'' = Inr (FloatCol (map Some [1, 3, 2, 5, 4, 8, 7]))"
  "len week = 7"
  by (simp_all add: wf_frame_def week_def len_def get_column_def)

lemma upt_values:
  "[0..<8] = [0, 1, 2, 3, 4, 5, 6, 7]" "[8..<10] = [8, 9]"
  "[0..<5] = [0, 1, 2, 3, 4]" "[5..<7] = [5, 6]"
  by (simp_all add: upt_rec numeral_eq_Suc)

lemma fit_ten:
  "fit (map real [0..<8]) (take 8 [1, 2, 3, 4, 5, 6, 7, 8, 9, 10]) = \<lparr>coef = 1, intercept = 1\<rparr>"
  unfolding upt_values by (simp add: fit_def mean_def Let_def power2_eq_square)

lemma fit_week:
  "fit (map real [0..<5]) (take 5 [1, 3, 2, 5, 4, 8, 7]) = \<lparr>coef = 4 / 5, intercept = 7 / 5\<rparr>"
  unfolding upt_values by (simp add: fit_def mean_def Let_def power2_eq_square)

lemma week_run:
  "linear_regression_prediction week =
     (set_column (assign_days week) ''Linear_Regression_Pred''
        (FloatCol [None, None, None, None, None, Some (27 / 5), Some (31 / 5)]),
      Inr (37 / 10))"
proof -
  have fl: "float_values (FloatCol (map Some [1, 3, 2, 5, 4, 8, 7])) = Inr (map Some [1, 3, 2, 5, 4, 8, 7])"
    by simp
  have n: "2 \<le> len week" by (simp add: week_facts)
  have k: "len week - (len week + 4) div 5 = 5" by (simp add: week_facts)
  have p: "predict \<lparr>coef = 4 / 5, intercept = 7 / 5\<rparr> (map real [5..<7]) = [27 / 5, 31 / 5]"
    unfolding upt_values by (simp add: predict_def)
  have r: "replicate 5 None @ map Some [27 / 5, 31 / 5 :: real]
             = [None, None, None, None, None, Some (27 / 5), Some (31 / 5)]"
    by (simp add: numeral_eq_Suc)
  have m: "sum_list (map2 (\<lambda>a p. (a - p)\<^sup>2) (drop 5 [1, 3, 2, 5, 4, 8, 7]) [27 / 5, 31 / 5 :: real])
             / real (len week - 5) = 37 / 10"
    by (simp add: power2_eq_square week_facts)
  from lr_success [OF week_facts(1) week_facts(2) week_facts(3) fl n]
  show ?thesis
    unfolding k fit_week unfolding week_facts(4) p r unfolding m [unfolded week_facts(4)] .
qed

section \<open>Trend forecaster: what the call does with the two slices\<close>

lemma lr_through_split:
  assumes wf: "wf_frame data"
    and dist: "distinct (index data)"
    and close: "get_column data ''Close'' = Inr c"
    and fl: "float_values c = Inr (map Some cs)"
    and n: "2 \<le> len data"
  defines "k \<equiv> len data - (len data + 4) div 5"
  defines "X \<equiv> labelled data (map (\<lambda>i. Some (real i)) [0..<len data])"
  defines "y \<equiv> labelled data (map Some cs)"
  defines "y_pred \<equiv> predict (fit (map (the \<circ> snd) (take k X)) (map (the \<circ> snd) (take k y)))
                       (map (the \<circ> snd) (drop k X))"
  shows "lr_split (assign_days data) = Inr (take k X, drop k X, take k y, drop k y)"
    and "linear_regression_prediction data =
           (set_column (assign_days data) ''Linear_Regression_Pred''
              (FloatCol (replicate k None @ map Some y_pred)),
            mean_squared_error (map snd (drop k y)) y_pred)"
    and "length X = len data" and "length y = len data" and "length y_pred = len data - k"
proof -
  have lc: "length cs = len data"
    using wf close fl float_values_length [OF fl] by (simp add: wf_frame_get_column)
  have k: "k \<le> len data" by (simp add: k_def)
  show lX: "length X = len data" by (simp add: X_def labelled_def len_def)
  show ly: "length y = len data" using lc by (simp add: y_def labelled_def len_def)
  show "lr_split (assign_days data) = Inr (take k X, drop k X, take k y, drop k y)"
    unfolding k_def X_def y_def by (rule lr_split_assign_days [OF wf close fl n])
  have sndy: "map snd y = map Some cs"
    using lc by (simp add: y_def labelled_def len_def)
  have split_the: "map (the \<circ> snd) zs = map the (map snd zs)"
    for zs :: "(date \<times> real option) list"
    by simp
  have Xtr: "map (the \<circ> snd) (take k X) = map real [0..<k]"
    unfolding split_the snd_days_slices(1) [OF k, folded X_def] by simp
  have Xte: "map (the \<circ> snd) (drop k X) = map real [k..<len data]"
    unfolding split_the snd_days_slices(2) [OF k, folded X_def] by simp
  have "map snd (take k y) = map Some (take k cs)"
    by (simp add: sndy take_map flip: take_map [of k snd])
  then have ytr: "map (the \<circ> snd) (take k y) = take k cs"
    unfolding split_the by simp
  have yte: "map snd (drop k y) = map Some (drop k cs)"
    by (simp add: sndy drop_map flip: drop_map [of k snd])
  have yp: "y_pred = predict (fit (map real [0..<k]) (take k cs)) (map real [k..<len data])"
    unfolding y_pred_def Xtr Xte ytr ..
  show lp: "length y_pred = len data - k" by (simp add: yp predict_def)
  have k2: "k < len data" using n by (simp add: k_def)
  have mse: "mean_squared_error (map snd (drop k y)) y_pred =
               Inr (sum_list (map2 (\<lambda>a p. (a - p)\<^sup>2) (drop k cs) y_pred) / real (len data - k))"
    unfolding yte using k2 lc lp by (simp add: mean_squared_error_def)
  show "linear_regression_prediction data =
           (set_column (assign_days data) ''Linear_Regression_Pred''
              (FloatCol (replicate k None @ map Some y_pred)),
            mean_squared_error (map snd (drop k y)) y_pred)"
    unfolding mse by (rule lr_success [OF wf dist close fl n, folded k_def, folded yp])
qed

lemma fit_lists:
  "fit [0, 1, 2, 3, 4, 5, 6, 7] [1, 2, 3, 4, 5, 6, 7, 8] = \<lparr>coef = 1, intercept = 1\<rparr>"
  "fit [0, 1, 2, 3, 4] [1, 3, 2, 5, 4] = \<lparr>coef = 4 / 5, intercept = 7 / 5\<rparr>"
  by (simp_all add: fit_def mean_def Let_def power2_eq_square)

lemma ten_days_prediction:
  "predict (fit (map (the \<circ> snd) [(0::date, Some 0), (1, Some 1), (2, Some 2), (3, Some 3),
                                   (4, Some 4), (5, Some 5), (6, Some 6), (7, Some 7)])
                (map (the \<circ> snd) [(0::date, Some 1), (1, Some 2), (2, Some 3), (3, Some 4),
                                   (4, Some 5), (5, Some 6), (6, Some 7), (7, Some 8)]))
     (map (the \<circ> snd) [(8::date, Some 8), (9, Some 9)]) = [9, 10]"
  by (simp add: fit_lists predict_def)

lemma week_prediction:
  "predict (fit (map (the \<circ> snd) [(10::date, Some 0), (11, Some 1), (12, Some 2), (13, Some 3),
                                   (14, Some 4)])
                (map (the \<circ> snd) [(10::date, Some 1), (11, Some 3), (12, Some 2), (13, Some 5),
                                   (14, Some 4)]))
     (map (the \<circ> snd) [(17::date, Some 5), (18, Some 6)]) = [27 / 5, 31 / 5]"
  by (simp add: fit_lists predict_def)

text \<open>
  Claim C2. For a well-formed series of at least two records with distinct dates and all
  closing prices present, \<^verbatim>\<open>linear_regression_prediction\<close> splits chronologically: the
  training slice followed by the evaluation slice is the series in its order (time indices
  and closing prices alike), the training slice holds the time indices \<open>0, 1, ...\<close> and the
  evaluation slice the ones after them, the training slice is 80 percent of the records
  rounded down and the evaluation slice 20 percent rounded up. The call uses exactly these
  slices: the forecast column it leaves is missing on the training positions and holds,
  after them, the predictions at the evaluation slice's time indices of the line fitted on
  the training slice, and the error it reports is the mean squared error of these predictions
  against the evaluation slice's closing prices.
\<close>

theorem chronological_split:
  assumes wf: "wf_frame data"
    and dist: "distinct (index data)"
    and close: "get_column data ''Close'' = Inr c"
    and fl: "float_values c = Inr (map Some cs)"
    and n: "2 \<le> len data"
  shows "\<exists>X_train X_test y_train y_test.
           lr_split (assign_days data) = Inr (X_train, X_test, y_train, y_test)
         \<and> X_train @ X_test = labelled data (map (\<lambda>i. Some (real i)) [0..<len data])
         \<and> y_train @ y_test = labelled data (map Some cs)
         \<and> length y_train = length X_train \<and> length y_test = length X_test
         \<and> map snd X_train = map (\<lambda>i. Some (real i)) [0..<length X_train]
         \<and> map snd X_test = map (\<lambda>i. Some (real i)) [length X_train..<len data]
         \<and> 5 * length X_train \<le> 4 * len data \<and> 4 * len data < 5 * length X_train + 5
         \<and> len data \<le> 5 * length X_test \<and> 5 * length X_test < len data + 5
         \<and> get_column (fst (linear_regression_prediction data)) ''Linear_Regression_Pred'' =
             Inr (FloatCol (replicate (length X_train) None @
                    map Some (predict (fit (map (the \<circ> snd) X_train) (map (the \<circ> snd) y_train))
                                (map (the \<circ> snd) X_test))))
         \<and> snd (linear_regression_prediction data) =
             mean_squared_error (map snd y_test)
               (predict (fit (map (the \<circ> snd) X_train) (map (the \<circ> snd) y_train))
                  (map (the \<circ> snd) X_test))"
proof -
  let ?k = "len data - (len data + 4) div 5"
  let ?X = "labelled data (map (\<lambda>i. Some (real i)) [0..<len data])"
  let ?y = "labelled data (map Some cs)"
  note t = lr_through_split [OF wf dist close fl n]
  have k: "?k \<le> len data" by simp
  have ltr: "length (take ?k ?X) = ?k" using t(3) by simp
  have lte: "length (drop ?k ?X) = (len data + 4) div 5" using t(3) n by simp
  have 1: "lr_split (assign_days data) = Inr (take ?k ?X, drop ?k ?X, take ?k ?y, drop ?k ?y)"
    by (rule t(1))
  have 2: "take ?k ?X @ drop ?k ?X = ?X" "take ?k ?y @ drop ?k ?y = ?y"
    by simp_all
  have 3: "length (take ?k ?y) = length (take ?k ?X)" "length (drop ?k ?y) = length (drop ?k ?X)"
    using t(3,4) by simp_all
  have 4: "map snd (take ?k ?X) = map (\<lambda>i. Some (real i)) [0..<length (take ?k ?X)]"
    unfolding ltr by (rule snd_days_slices(1) [OF k])
  have 5: "map snd (drop ?k ?X) = map (\<lambda>i. Some (real i)) [length (take ?k ?X)..<len data]"
    unfolding ltr by (rule snd_days_slices(2) [OF k])
  have 6: "5 * length (take ?k ?X) \<le> 4 * len data" "4 * len data < 5 * length (take ?k ?X) + 5"
    unfolding ltr by linarith+
  have 7: "len data \<le> 5 * length (drop ?k ?X)" "5 * length (drop ?k ?X) < len data + 5"
    unfolding lte by linarith+
  have 8: "get_column (fst (linear_regression_prediction data)) ''Linear_Regression_Pred'' =
             Inr (FloatCol (replicate (length (take ?k ?X)) None @
                    map Some (predict (fit (map (the \<circ> snd) (take ?k ?X)) (map (the \<circ> snd) (take ?k ?y)))
                                (map (the \<circ> snd) (drop ?k ?X)))))"
    unfolding ltr t(2) by simp
  have 9: "snd (linear_regression_prediction data) =
             mean_squared_error (map snd (drop ?k ?y))
               (predict (fit (map (the \<circ> snd) (take ?k ?X)) (map (the \<circ> snd) (take ?k ?y)))
                  (map (the \<circ> snd) (drop ?k ?X)))"
    unfolding t(2) by simp
  show ?thesis
    by (intro exI [of _ "take ?k ?X"] exI [of _ "drop ?k ?X"] exI [of _ "take ?k ?y"]
        exI [of _ "drop ?k ?y"] conjI 1 2 3 4 5 6 7 8 9)
qed

text \<open>
  The scenario of the specification: ten records give a training slice at the positions
  0 to 7 and an evaluation slice at the positions 8 and 9; the series is a perfect line, so
  the forecasts are 9 and 10 and the reported error is 0.
\<close>

theorem chronological_split_witness:
  "wf_frame ten_days \<and> distinct (index ten_days)
   \<and> get_column ten_days ''Close'' = Inr (FloatCol (map Some [1, 2, 3, 4, 5, 6, 7, 8, 9, 10]))
   \<and> float_values (FloatCol (map Some [1, 2, 3, 4, 5, 6, 7, 8, 9, 10]))
        = Inr (map Some [1, 2, 3, 4, 5, 6, 7, 8, 9, 10])
   \<and> 2 \<le> len ten_days
   \<and> lr_split (assign_days ten_days) =
       Inr ([(0, Some 0), (1, Some 1), (2, Some 2), (3, Some 3), (4, Some 4), (5, Some 5),
             (6, Some 6), (7, Some 7)],
            [(8, Some 8), (9, Some 9)],
            [(0, Some 1), (1, Some 2), (2, Some 3), (3, Some 4), (4, Some 5), (5, Some 6),
             (6, Some 7), (7, Some 8)],
            [(8, Some 9), (9, Some 10)])
   \<and> get_column (fst (linear_regression_prediction ten_days)) ''Linear_Regression_Pred'' =
       Inr (FloatCol [None, None, None, None, None, None, None, None, Some 9, Some 10])
   \<and> snd (linear_regression_prediction ten_days) = Inr 0"
proof -
  have h3: "float_values (FloatCol (map Some [1, 2, 3, 4, 5, 6, 7, 8, 9, 10]))
        = Inr (map Some [1, 2, 3, 4, 5, 6, 7, 8, 9, 10])" by simp
  have h4: "2 \<le> len ten_days" by (simp add: ten_days_facts)
  have X: "labelled ten_days (map (\<lambda>i. Some (real i)) [0..<10]) =
             [(0, Some 0), (1, Some 1), (2, Some 2), (3, Some 3), (4, Some 4), (5, Some 5),
              (6, Some 6), (7, Some 7), (8, Some 8), (9, Some 9)]"
    by (simp add: labelled_def ten_days_def upt_rec numeral_eq_Suc)
  have y: "labelled ten_days (map Some [1, 2, 3, 4, 5, 6, 7, 8, 9, 10]) =
             [(0, Some 1), (1, Some 2), (2, Some 3), (3, Some 4), (4, Some 5), (5, Some 6),
              (6, Some 7), (7, Some 8), (8, Some 9), (9, Some 10)]"
    by (simp add: labelled_def ten_days_def)
  from chronological_split [OF ten_days_facts(1) ten_days_facts(2) ten_days_facts(3) h3 h4]
  obtain X_train X_test y_train y_test where
    r: "lr_split (assign_days ten_days) = Inr (X_train, X_test, y_train, y_test)"
    and aX: "X_train @ X_test = labelled ten_days (map (\<lambda>i. Some (real i)) [0..<10])"
    and ay: "y_train @ y_test = labelled ten_days (map Some [1, 2, 3, 4, 5, 6, 7, 8, 9, 10])"
    and l: "length y_train = length X_train"
    and b: "5 * length X_train \<le> 4 * 10" "4 * 10 < 5 * length X_train + 5"
    and g: "get_column (fst (linear_regression_prediction ten_days)) ''Linear_Regression_Pred'' =
             Inr (FloatCol (replicate (length X_train) None @
                    map Some (predict (fit (map (the \<circ> snd) X_train) (map (the \<circ> snd) y_train))
                                (map (the \<circ> snd) X_test))))"
    and m: "snd (linear_regression_prediction ten_days) =
             mean_squared_error (map snd y_test)
               (predict (fit (map (the \<circ> snd) X_train) (map (the \<circ> snd) y_train))
                  (map (the \<circ> snd) X_test))"
    unfolding ten_days_facts(4) by (elim exE conjE)
  from b have l8: "length X_train = 8" by linarith
  from aX l8 have "X_train = take 8 (labelled ten_days (map (\<lambda>i. Some (real i)) [0..<10]))"
    "X_test = drop 8 (labelled ten_days (map (\<lambda>i. Some (real i)) [0..<10]))"
    by (metis append_eq_conv_conj)+
  then have Xs: "X_train = [(0, Some 0), (1, Some 1), (2, Some 2), (3, Some 3), (4, Some 4), (5, Some 5),
             (6, Some 6), (7, Some 7)]" "X_test = [(8, Some 8), (9, Some 9)]"
    unfolding X by simp_all
  from ay l l8 have "y_train = take 8 (labelled ten_days (map Some [1, 2, 3, 4, 5, 6, 7, 8, 9, 10]))"
    "y_test = drop 8 (labelled ten_days (map Some [1, 2, 3, 4, 5, 6, 7, 8, 9, 10]))"
    by (metis append_eq_conv_conj)+
  then have ys: "y_train = [(0, Some 1), (1, Some 2), (2, Some 3), (3, Some 4), (4, Some 5), (5, Some 6),
             (6, Some 7), (7, Some 8)]" "y_test = [(8, Some 9), (9, Some 10)]"
    unfolding y by simp_all
  have rep: "replicate 8 None @ map Some [9, 10 :: real]
               = [None, None, None, None, None, None, None, None, Some 9, Some 10]"
    by (simp add: numeral_eq_Suc)
  have e0: "mean_squared_error (map snd [(8::date, Some 9), (9, Some 10)]) [9, 10] = Inr 0"
    by (simp add: mean_squared_error_def finite_values_def)
  from r have r': "lr_split (assign_days ten_days) =
       Inr ([(0, Some 0), (1, Some 1), (2, Some 2), (3, Some 3), (4, Some 4), (5, Some 5),
             (6, Some 6), (7, Some 7)],
            [(8, Some 8), (9, Some 9)],
            [(0, Some 1), (1, Some 2), (2, Some 3), (3, Some 4), (4, Some 5), (5, Some 6),
             (6, Some 7), (7, Some 8)],
            [(8, Some 9), (9, Some 10)])"
    unfolding Xs ys .
  from g have g': "get_column (fst (linear_regression_prediction ten_days)) ''Linear_Regression_Pred'' =
       Inr (FloatCol [None, None, None, None, None, None, None, None, Some 9, Some 10])"
    unfolding l8 unfolding Xs ys ten_days_prediction rep .
  from m have m': "snd (linear_regression_prediction ten_days) = Inr 0"
    unfolding Xs ys ten_days_prediction e0 .
  from ten_days_facts(1,2,3) h3 h4 r' g' m' show ?thesis by (simp only: simp_thms)
qed

text \<open>
  Claim C9. Under the same conditions, for a series of \<open>n\<close> records the evaluation slice
  has exactly \<open>\<lceil>0.2 * n\<rceil>\<close> records and the training slice the \<open>n - \<lceil>0.2 * n\<rceil>\<close> records
  before them; accordingly the forecast column that \<^verbatim>\<open>linear_regression_prediction\<close>
  leaves has \<open>n - \<lceil>0.2 * n\<rceil>\<close> missing values followed by \<open>\<lceil>0.2 * n\<rceil>\<close> predictions, made
  by the line fitted on the training slice, and the reported error is taken over the
  evaluation slice.
\<close>

theorem split_sizes:
  assumes wf: "wf_frame data"
    and dist: "distinct (index data)"
    and close: "get_column data ''Close'' = Inr c"
    and fl: "float_values c = Inr (map Some cs)"
    and n: "2 \<le> len data"
  shows "\<exists>X_train X_test y_train y_test y_pred.
           lr_split (assign_days data) = Inr (X_train, X_test, y_train, y_test)
         \<and> length X_test = nat \<lceil>0.2 * real (len data)\<rceil>
         \<and> length y_test = nat \<lceil>0.2 * real (len data)\<rceil>
         \<and> length X_train = len data - nat \<lceil>0.2 * real (len data)\<rceil>
         \<and> length y_train = len data - nat \<lceil>0.2 * real (len data)\<rceil>
         \<and> X_train = take (length X_train) (labelled data (map (\<lambda>i. Some (real i)) [0..<len data]))
         \<and> X_test = drop (length X_train) (labelled data (map (\<lambda>i. Some (real i)) [0..<len data]))
         \<and> y_train = take (length X_train) (labelled data (map Some cs))
         \<and> y_test = drop (length X_train) (labelled data (map Some cs))
         \<and> get_column (fst (linear_regression_prediction data)) ''Linear_Regression_Pred'' =
             Inr (FloatCol (replicate (len data - nat \<lceil>0.2 * real (len data)\<rceil>) None
                            @ map Some y_pred))
         \<and> length y_pred = nat \<lceil>0.2 * real (len data)\<rceil>
         \<and> y_pred = predict (fit (map (the \<circ> snd) X_train) (map (the \<circ> snd) y_train))
                       (map (the \<circ> snd) X_test)
         \<and> snd (linear_regression_prediction data) = mean_squared_error (map snd y_test) y_pred"
proof -
  let ?k = "len data - (len data + 4) div 5"
  let ?X = "labelled data (map (\<lambda>i. Some (real i)) [0..<len data])"
  let ?y = "labelled data (map Some cs)"
  let ?p = "predict (fit (map (the \<circ> snd) (take ?k ?X)) (map (the \<circ> snd) (take ?k ?y)))
              (map (the \<circ> snd) (drop ?k ?X))"
  note t = lr_through_split [OF wf dist close fl n]
  have c: "nat \<lceil>0.2 * real (len data)\<rceil> = (len data + 4) div 5"
    by (rule ceiling_fifth_real)
  have ltr: "length (take ?k ?X) = ?k" "length (take ?k ?y) = ?k" using t(3,4) by simp_all
  have lte: "length (drop ?k ?X) = (len data + 4) div 5" "length (drop ?k ?y) = (len data + 4) div 5"
    using t(3,4) n by simp_all
  have lp: "length ?p = (len data + 4) div 5" using t(5) n by simp
  have 1: "lr_split (assign_days data) = Inr (take ?k ?X, drop ?k ?X, take ?k ?y, drop ?k ?y)"
    by (rule t(1))
  have 8: "get_column (fst (linear_regression_prediction data)) ''Linear_Regression_Pred'' =
             Inr (FloatCol (replicate ?k None @ map Some ?p))"
    unfolding t(2) by simp
  have 9: "snd (linear_regression_prediction data) = mean_squared_error (map snd (drop ?k ?y)) ?p"
    unfolding t(2) by simp
  show ?thesis
    unfolding c
    by (intro exI [of _ "take ?k ?X"] exI [of _ "drop ?k ?X"] exI [of _ "take ?k ?y"]
        exI [of _ "drop ?k ?y"] exI [of _ ?p] conjI 1 8 9 lp)
      (simp_all only: ltr lte)
qed

text \<open>Seven records: five for training, then two for evaluation.\<close>

theorem split_sizes_witness:
  "wf_frame week \<and> distinct (index week)
   \<and> get_column week ''Close'' = Inr (FloatCol (map Some [1, 3, 2, 5, 4, 8, 7]))
   \<and> float_values (FloatCol (map Some [1, 3, 2, 5, 4, 8, 7])) = Inr (map Some [1, 3, 2, 5, 4, 8, 7])
   \<and> 2 \<le> len week
   \<and> lr_split (assign_days week) =
       Inr ([(10, Some 0), (11, Some 1), (12, Some 2), (13, Some 3), (14, Some 4)],
            [(17, Some 5), (18, Some 6)],
            [(10, Some 1), (11, Some 3), (12, Some 2), (13, Some 5), (14, Some 4)],
            [(17, Some 8), (18, Some 7)])
   \<and> get_column (fst (linear_regression_prediction week)) ''Linear_Regression_Pred'' =
       Inr (FloatCol [None, None, None, None, None, Some (27 / 5), Some (31 / 5)])
   \<and> snd (linear_regression_prediction week) = Inr (37 / 10)"
proof -
  have h3: "float_values (FloatCol (map Some [1, 3, 2, 5, 4, 8, 7])) = Inr (map Some [1, 3, 2, 5, 4, 8, 7])"
    by simp
  have h4: "2 \<le> len week" by (simp add: week_facts)
  have t: "nat \<lceil>0.2 * real 7\<rceil> = 2" unfolding ceiling_fifth_real by simp
  have X: "labelled week (map (\<lambda>i. Some (real i)) [0..<7]) =
             [(10, Some 0), (11, Some 1), (12, Some 2), (13, Some 3), (14, Some 4), (17, Some 5),
              (18, Some 6)]"
    by (simp add: labelled_def week_def upt_rec numeral_eq_Suc)
  have y: "labelled week (map Some [1, 3, 2, 5, 4, 8, 7]) =
             [(10, Some 1), (11, Some 3), (12, Some 2), (13, Some 5), (14, Some 4), (17, Some 8),
              (18, Some 7)]"
    by (simp add: labelled_def week_def)
  from split_sizes [OF week_facts(1) week_facts(2) week_facts(3) h3 h4]
  obtain X_train X_test y_train y_test y_pred where
    r: "lr_split (assign_days week) = Inr (X_train, X_test, y_train, y_test)"
    and l: "length X_train = 7 - 2"
    and s: "X_train = take (length X_train) (labelled week (map (\<lambda>i. Some (real i)) [0..<7]))"
      "X_test = drop (length X_train) (labelled week (map (\<lambda>i. Some (real i)) [0..<7]))"
      "y_train = take (length X_train) (labelled week (map Some [1, 3, 2, 5, 4, 8, 7]))"
      "y_test = drop (length X_train) (labelled week (map Some [1, 3, 2, 5, 4, 8, 7]))"
    and g: "get_column (fst (linear_regression_prediction week)) ''Linear_Regression_Pred'' =
             Inr (FloatCol (replicate (7 - 2) None @ map Some y_pred))"
    and p: "y_pred = predict (fit (map (the \<circ> snd) X_train) (map (the \<circ> snd) y_train))
                       (map (the \<circ> snd) X_test)"
    and m: "snd (linear_regression_prediction week) = mean_squared_error (map snd y_test) y_pred"
    unfolding week_facts(4) t by (elim exE conjE)
  have sl: "X_train = [(10, Some 0), (11, Some 1), (12, Some 2), (13, Some 3), (14, Some 4)]"
    "X_test = [(17, Some 5), (18, Some 6)]"
    "y_train = [(10, Some 1), (11, Some 3), (12, Some 2), (13, Some 5), (14, Some 4)]"
    "y_test = [(17, Some 8), (18, Some 7)]"
    using s unfolding l X y by simp_all
  from p have yp: "y_pred = [27 / 5, 31 / 5]" unfolding sl week_prediction .
  have rep: "replicate (7 - 2) None @ map Some [27 / 5, 31 / 5 :: real]
               = [None, None, None, None, None, Some (27 / 5), Some (31 / 5)]"
    by (simp add: numeral_eq_Suc)
  have e: "mean_squared_error (map snd [(17::date, Some 8), (18, Some 7)]) [27 / 5, 31 / 5]
             = Inr (37 / 10)"
    by (simp add: mean_squared_error_def finite_values_def power2_eq_square)
  from r have r': "lr_split (assign_days week) =
       Inr ([(10, Some 0), (11, Some 1), (12, Some 2), (13, Some 3), (14, Some 4)],
            [(17, Some 5), (18, Some 6)],
            [(10, Some 1), (11, Some 3), (12, Some 2), (13, Some 5), (14, Some 4)],
            [(17, Some 8), (18, Some 7)])"
    unfolding sl .
  from g have g': "get_column (fst (linear_regression_prediction week)) ''Linear_Regression_Pred'' =
       Inr (FloatCol [None, None, None, None, None, Some (27 / 5), Some (31 / 5)])"
    unfolding yp rep .
  from m have m': "snd (linear_regression_prediction week) = Inr (37 / 10)"
    unfolding sl yp e .
  from week_facts(1,2,3) h3 h4 r' g' m' show ?thesis by (simp only: simp_thms)
qed

section \<open>Trend forecaster: forecast column and reported error\<close>

text \<open>
  Claim C3. For a well-formed series of at least two records with distinct dates and all
  closing prices present, \<^verbatim>\<open>linear_regression_prediction\<close> succeeds and leaves the
  forecast column missing at every position before the evaluation slice and, at each position
  \<open>i\<close> of the evaluation slice, equal to the fitted line evaluated at the time index
  \<open>i\<close>. The fitted line is the least-squares line of the training slice: no line has a
  smaller sum of squared residuals there.
\<close>

theorem forecast_column:
  assumes wf: "wf_frame data"
    and dist: "distinct (index data)"
    and close: "get_column data ''Close'' = Inr c"
    and fl: "float_values c = Inr (map Some cs)"
    and n: "2 \<le> len data"
  defines "n_train \<equiv> len data - nat \<lceil>0.2 * real (len data)\<rceil>"
  defines "model \<equiv> fit (map real [0..<n_train]) (take n_train cs)"
  shows "get_column (fst (linear_regression_prediction data)) ''Linear_Regression_Pred'' =
           Inr (FloatCol (replicate n_train None @
                  map (\<lambda>i. Some (real i * coef model + intercept model)) [n_train..<len data]))
       \<and> (\<exists>mse. snd (linear_regression_prediction data) = Inr mse)
       \<and> (\<forall>a b. squared_residuals (coef model) (intercept model)
                    (map real [0..<n_train]) (take n_train cs)
                  \<le> squared_residuals a b (map real [0..<n_train]) (take n_train cs))"
proof -
  have k: "n_train = len data - (len data + 4) div 5"
    by (simp only: n_train_def ceiling_fifth_real)
  have lc: "length cs = len data"
    using wf close fl float_values_length [OF fl] by (simp add: wf_frame_get_column)
  have pos: "0 < n_train" "n_train \<le> len data" using n unfolding k by linarith+
  have pred: "map Some (predict model (map real [n_train..<len data]))
                = map (\<lambda>i. Some (real i * coef model + intercept model)) [n_train..<len data]"
    by (simp add: predict_def)
  note s = lr_success [OF wf dist close fl n, folded k, folded model_def]
  have "get_column (fst (linear_regression_prediction data)) ''Linear_Regression_Pred'' =
           Inr (FloatCol (replicate n_train None @
                  map (\<lambda>i. Some (real i * coef model + intercept model)) [n_train..<len data]))"
    unfolding s by (simp only: fst_conv get_column_set_column_same pred)
  moreover have "\<exists>mse. snd (linear_regression_prediction data) = Inr mse"
    unfolding s by simp
  moreover have "squared_residuals (coef model) (intercept model)
                    (map real [0..<n_train]) (take n_train cs)
                  \<le> squared_residuals a b (map real [0..<n_train]) (take n_train cs)" for a b
    unfolding model_def using pos lc by (intro fit_least_squares) simp_all
  ultimately show ?thesis by blast
qed

text \<open>The ten-record scenario: the forecast is defined at the positions 8 and 9 only.\<close>

theorem forecast_column_witness:
  "wf_frame ten_days \<and> distinct (index ten_days)
   \<and> get_column ten_days ''Close'' = Inr (FloatCol (map Some [1, 2, 3, 4, 5, 6, 7, 8, 9, 10]))
   \<and> float_values (FloatCol (map Some [1, 2, 3, 4, 5, 6, 7, 8, 9, 10]))
        = Inr (map Some [1, 2, 3, 4, 5, 6, 7, 8, 9, 10])
   \<and> 2 \<le> len ten_days
   \<and> get_column (fst (linear_regression_prediction ten_days)) ''Linear_Regression_Pred'' =
        Inr (FloatCol [None, None, None, None, None, None, None, None, Some 9, Some 10])
   \<and> (\<exists>mse. snd (linear_regression_prediction ten_days) = Inr mse)"
proof -
  have h3: "float_values (FloatCol (map Some [1, 2, 3, 4, 5, 6, 7, 8, 9, 10]))
        = Inr (map Some [1, 2, 3, 4, 5, 6, 7, 8, 9, 10])" by simp
  have h4: "2 \<le> len ten_days" by (simp add: ten_days_facts)
  have t: "(10::nat) - nat \<lceil>0.2 * real 10\<rceil> = 8"
    unfolding ceiling_fifth_real by simp
  have ev: "replicate 8 None @
              map (\<lambda>i. Some (real i * coef \<lparr>coef = 1, intercept = 1\<rparr>
                              + intercept \<lparr>coef = 1, intercept = 1\<rparr>)) [8..<10]
              = [None, None, None, None, None, None, None, None, Some 9, Some 10]"
    unfolding upt_values by (simp add: numeral_eq_Suc)
  from forecast_column [OF ten_days_facts(1) ten_days_facts(2) ten_days_facts(3) h3 h4]
  have "get_column (fst (linear_regression_prediction ten_days)) ''Linear_Regression_Pred'' =
          Inr (FloatCol [None, None, None, None, None, None, None, None, Some 9, Some 10])
        \<and> (\<exists>mse. snd (linear_regression_prediction ten_days) = Inr mse)"
    unfolding ten_days_facts(4) unfolding t unfolding fit_ten unfolding ev by (elim conjE) (intro conjI)
  then show ?thesis using ten_days_facts(1,2,3) h3 h4 by (simp only: simp_thms)
qed

text \<open>
  Claim C4. Under the same conditions the mean squared error the call reports is
  non-negative and is the average, over the positions of the evaluation slice (the
  positions where the forecast column is defined), of the squared difference between the
  forecast and the closing price.
\<close>

theorem reported_mse:
  assumes wf: "wf_frame data"
    and dist: "distinct (index data)"
    and close: "get_column data ''Close'' = Inr c"
    and fl: "float_values c = Inr (map Some cs)"
    and n: "2 \<le> len data"
  defines "n_train \<equiv> len data - nat \<lceil>0.2 * real (len data)\<rceil>"
  shows "\<exists>mse forecast.
           snd (linear_regression_prediction data) = Inr mse
         \<and> get_column (fst (linear_regression_prediction data)) ''Linear_Regression_Pred''
             = Inr (FloatCol forecast)
         \<and> {i. i < len data \<and> forecast ! i \<noteq> None} = {n_train..<len data}
         \<and> mse = (\<Sum>i = n_train..<len data. (the (forecast ! i) - cs ! i)\<^sup>2)
                   / real (len data - n_train)
         \<and> 0 \<le> mse"
proof -
  define y_pred where
    "y_pred = predict (fit (map real [0..<n_train]) (take n_train cs)) (map real [n_train..<len data])"
  define forecast where "forecast = replicate n_train None @ map Some y_pred"
  define mse where
    "mse = sum_list (map2 (\<lambda>a p. (a - p)\<^sup>2) (drop n_train cs) y_pred) / real (len data - n_train)"
  have k: "n_train = len data - (len data + 4) div 5"
    by (simp only: n_train_def ceiling_fifth_real)
  have lc: "length cs = len data"
    using wf close fl float_values_length [OF fl] by (simp add: wf_frame_get_column)
  have pos: "n_train \<le> len data" unfolding k by simp
  have lp: "length y_pred = len data - n_train" by (simp add: y_pred_def predict_def)
  note s = lr_success [OF wf dist close fl n, folded k, folded y_pred_def, folded forecast_def mse_def]
  have below: "forecast ! i = None" if "i < n_train" for i
    using that by (simp add: forecast_def nth_append)
  have above: "forecast ! i = Some (y_pred ! (i - n_train))" if "n_train \<le> i" "i < len data" for i
    using that lp by (simp add: forecast_def nth_append)
  have def: "{i. i < len data \<and> forecast ! i \<noteq> None} = {n_train..<len data}"
  proof (rule set_eqI)
    fix i
    show "i \<in> {i. i < len data \<and> forecast ! i \<noteq> None} \<longleftrightarrow> i \<in> {n_train..<len data}"
      using below [of i] above [of i] by (cases "i < n_train") auto
  qed
  have "sum_list (map2 (\<lambda>a p. (a - p)\<^sup>2) (drop n_train cs) y_pred)
          = (\<Sum>i = n_train..<length cs. (cs ! i - y_pred ! (i - n_train))\<^sup>2)"
    using lp lc pos by (intro sum_list_map2_drop) simp_all
  also have "\<dots> = (\<Sum>i = n_train..<len data. (the (forecast ! i) - cs ! i)\<^sup>2)"
    unfolding lc by (intro sum.cong) (simp_all add: above power2_commute)
  finally have sum: "mse = (\<Sum>i = n_train..<len data. (the (forecast ! i) - cs ! i)\<^sup>2)
                   / real (len data - n_train)"
    by (simp add: mse_def)
  have nonneg: "0 \<le> mse"
    unfolding sum by (intro divide_nonneg_nonneg sum_nonneg) simp_all
  have "snd (linear_regression_prediction data) = Inr mse"
    unfolding s by simp
  moreover have "get_column (fst (linear_regression_prediction data)) ''Linear_Regression_Pred''
             = Inr (FloatCol forecast)"
    unfolding s by simp
  ultimately show ?thesis using def sum nonneg by blast
qed

text \<open>Seven records: the error is the average over the last two of them.\<close>

theorem reported_mse_witness:
  "wf_frame week \<and> distinct (index week)
   \<and> get_column week ''Close'' = Inr (FloatCol (map Some [1, 3, 2, 5, 4, 8, 7]))
   \<and> float_values (FloatCol (map Some [1, 3, 2, 5, 4, 8, 7])) = Inr (map Some [1, 3, 2, 5, 4, 8, 7])
   \<and> 2 \<le> len week
   \<and> snd (linear_regression_prediction week) = Inr (37 / 10)
   \<and> get_column (fst (linear_regression_prediction week)) ''Linear_Regression_Pred''
       = Inr (FloatCol [None, None, None, None, None, Some (27 / 5), Some (31 / 5)])
   \<and> (37 / 10 :: real) = (((27 / 5) - 8)\<^sup>2 + ((31 / 5) - 7)\<^sup>2) / 2
   \<and> (0 :: real) \<le> 37 / 10"
proof -
  have h3: "float_values (FloatCol (map Some [1, 3, 2, 5, 4, 8, 7])) = Inr (map Some [1, 3, 2, 5, 4, 8, 7])"
    by simp
  have h4: "2 \<le> len week" by (simp add: week_facts)
  have t: "(7::nat) - nat \<lceil>0.2 * real 7\<rceil> = 5"
    unfolding ceiling_fifth_real by simp
  from reported_mse [OF week_facts(1) week_facts(2) week_facts(3) h3 h4]
  obtain mse forecast where
    m: "snd (linear_regression_prediction week) = Inr mse"
    and f: "get_column (fst (linear_regression_prediction week)) ''Linear_Regression_Pred''
             = Inr (FloatCol forecast)"
    and s: "mse = (\<Sum>i = 5..<7. (the (forecast ! i) - [1, 3, 2, 5, 4, 8, 7] ! i)\<^sup>2) / real (7 - 5)"
    and p: "0 \<le> mse"
    unfolding week_facts(4) unfolding t by (elim exE conjE)
  from f have fc: "forecast = [None, None, None, None, None, Some (27 / 5), Some (31 / 5)]"
    unfolding week_run by simp
  from m have mv: "mse = 37 / 10" unfolding week_run by simp
  have "(\<Sum>i = 5..<7. (the ([None, None, None, None, None, Some (27 / 5), Some (31 / 5 :: real)] ! i)
             - [1, 3, 2, 5, 4, 8, 7] ! i)\<^sup>2)
          = ((27 / 5) - 8)\<^sup>2 + ((31 / 5) - 7)\<^sup>2"
    by (simp add: sum.atLeast_Suc_lessThan numeral_eq_Suc)
  with s have e: "(37 / 10 :: real) = (((27 / 5) - 8)\<^sup>2 + ((31 / 5) - 7)\<^sup>2) / 2"
    unfolding fc mv by simp
  from p have p': "(0 :: real) \<le> 37 / 10" unfolding mv .
  from m have m': "snd (linear_regression_prediction week) = Inr (37 / 10)" unfolding mv .
  from f have f': "get_column (fst (linear_regression_prediction week)) ''Linear_Regression_Pred''
       = Inr (FloatCol [None, None, None, None, None, Some (27 / 5), Some (31 / 5)])"
    unfolding fc .
  show ?thesis using week_facts(1,2,3) h3 h4 m' f' e p' by (simp only: simp_thms)
qed

section \<open>The stages and the columns they find\<close>






section \<open>Loader\<close>

text \<open>
  Claim C7, as amended. The program's loader takes no file path and reads no file:
  whatever files the working directory holds, \<^verbatim>\<open>load_data\<close> returns the same frame,
  the provider's frame with its index assigned to the column \<^verbatim>\<open>'Date'\<close>.
\<close>

theorem loader_ignores_files:
  "load_data (w\<lparr>files := fs\<rparr>) ticker start_date end_date = load_data w ticker start_date end_date
   \<and> index (load_data w ticker start_date end_date) = index (provider w ticker start_date end_date)
   \<and> load_data w ticker start_date end_date =
       set_column (provider w ticker start_date end_date) ''Date''
         (DateCol (index (provider w ticker start_date end_date)))"
  by (simp add: load_data_def Let_def)

text \<open>
  The claim as stated fails: with a previously saved table at
  \<^verbatim>\<open>nvidia_stock_data.csv\<close> and a provider without data, the loader called with that
  path (or with its default ticker) returns the provider's empty series, not the ten
  records of the table.
\<close>

theorem saved_table_not_loaded:
  "files offline ''nvidia_stock_data.csv'' = Some (Table ten_days)
   \<and> load_data offline ''nvidia_stock_data.csv'' ''2022-01-01'' ''2023-01-01''
       = \<lparr>index = [], columns = [(''Date'', DateCol [])]\<rparr>
   \<and> load_data offline ''NVDA'' ''2022-01-01'' ''2023-01-01''
       = \<lparr>index = [], columns = [(''Date'', DateCol [])]\<rparr>
   \<and> index ten_days \<noteq> []"
  by (simp add: offline_def load_data_def set_column_def ten_days_def)

section \<open>Visualizer\<close>

lemma get_column_index_update: "get_column (data\<lparr>index := idx\<rparr>) name = get_column data name"
  by (simp add: get_column_def)

lemma plot_index_update:
  "plot (data\<lparr>index := idx\<rparr>) xname yname label color fig = plot data xname yname label color fig"
  by (simp only: plot_def get_column_index_update)

lemma visualize_index_update:
  "visualize_predictions (data\<lparr>index := idx\<rparr>) w = visualize_predictions data w"
  by (simp only: visualize_predictions_def plot_index_update)

text \<open>
  Claim C10. \<^verbatim>\<open>load_data\<close> returns the provider's frame with the column
  \<^verbatim>\<open>'Date'\<close> holding the index: same index, every other column as the provider gave it,
  and \<^verbatim>\<open>'Date'\<close> appended when the provider's frame has no such column. A successful
  \<^verbatim>\<open>visualize_predictions\<close> draws its three lines over that \<^verbatim>\<open>'Date'\<close> column, and
  its outcome does not depend on the index of the frame.
\<close>

theorem date_column_is_the_axis:
  "get_column (load_data w ticker start_date end_date) ''Date''
     = Inr (DateCol (index (provider w ticker start_date end_date)))
   \<and> index (load_data w ticker start_date end_date) = index (provider w ticker start_date end_date)
   \<and> (\<forall>name. name \<noteq> ''Date'' \<longrightarrow>
         get_column (load_data w ticker start_date end_date) name
           = get_column (provider w ticker start_date end_date) name)
   \<and> (''Date'' \<notin> set (column_names (provider w ticker start_date end_date)) \<longrightarrow>
         columns (load_data w ticker start_date end_date)
           = columns (provider w ticker start_date end_date)
             @ [(''Date'', DateCol (index (provider w ticker start_date end_date)))])
   \<and> (visualize_predictions data w0 = Inr w' \<longrightarrow>
         (\<exists>fig d. events w' = events w0 @ [Saved ''nvidia_stock_price_prediction.png'' fig, Shown fig]
            \<and> get_column data ''Date'' = Inr d
            \<and> map line_x (lines fig) = [d, d, d]
            \<and> map line_label (lines fig)
                = [''Actual Prices'', ''Moving Average (window=5)'', ''Linear Regression Prediction'']))
   \<and> visualize_predictions (data\<lparr>index := idx\<rparr>) w0 = visualize_predictions data w0"
proof -
  have load: "get_column (load_data w ticker start_date end_date) ''Date''
     = Inr (DateCol (index (provider w ticker start_date end_date)))
   \<and> index (load_data w ticker start_date end_date) = index (provider w ticker start_date end_date)
   \<and> (\<forall>name. name \<noteq> ''Date'' \<longrightarrow>
         get_column (load_data w ticker start_date end_date) name
           = get_column (provider w ticker start_date end_date) name)
   \<and> (''Date'' \<notin> set (column_names (provider w ticker start_date end_date)) \<longrightarrow>
         columns (load_data w ticker start_date end_date)
           = columns (provider w ticker start_date end_date)
             @ [(''Date'', DateCol (index (provider w ticker start_date end_date)))])"
    by (simp add: load_data_def Let_def columns_set_column_fresh)
  have vis: "\<exists>fig d. events w' = events w0 @ [Saved ''nvidia_stock_price_prediction.png'' fig, Shown fig]
            \<and> get_column data ''Date'' = Inr d
            \<and> map line_x (lines fig) = [d, d, d]
            \<and> map line_label (lines fig)
                = [''Actual Prices'', ''Moving Average (window=5)'', ''Linear Regression Prediction'']"
    if "visualize_predictions data w0 = Inr w'"
    using that
    by (auto simp: visualize_predictions_def plot_def figure_def savefig_def show_chart_def Let_def
        split: sum.splits if_splits)
  have idx: "visualize_predictions (data\<lparr>index := idx\<rparr>) w0 = visualize_predictions data w0"
    by (rule visualize_index_update)
  from load vis idx show ?thesis by blast
qed

lemma visualize_success:
  assumes wf: "wf_frame data"
    and d: "get_column data ''Date'' = Inr d"
    and c: "get_column data ''Close'' = Inr c"
    and m: "get_column data ''Moving_Avg'' = Inr m"
    and p: "get_column data ''Linear_Regression_Pred'' = Inr p"
  defines "fig \<equiv> \<lparr>figsize = (14, 7),
       lines = [\<lparr>line_x = d, line_y = c, line_label = ''Actual Prices'', line_color = ''blue''\<rparr>,
                \<lparr>line_x = d, line_y = m, line_label = ''Moving Average (window=5)'',
                   line_color = ''green''\<rparr>,
                \<lparr>line_x = d, line_y = p, line_label = ''Linear Regression Prediction'',
                   line_color = ''red''\<rparr>],
       title = ''Nvidia Stock Price Prediction'', xlabel = ''Date'', ylabel = ''Price (USD)'',
       legend = True, grid = True\<rparr>"
  shows "visualize_predictions data w =
           Inr (show_chart fig (savefig ''nvidia_stock_price_prediction.png'' fig w))"
proof -
  have l: "col_length d = len data" "col_length c = len data" "col_length m = len data"
    "col_length p = len data"
    using wf d c m p by (simp_all add: wf_frame_get_column)
  show ?thesis
    unfolding visualize_predictions_def plot_def d c m p fig_def
    by (simp add: l figure_def Let_def)
qed

text \<open>
  Claim C8. On a well-formed series holding the four plotted columns,
  \<^verbatim>\<open>visualize_predictions\<close> succeeds; it stores the chart of the three lines under the
  name \<^verbatim>\<open>nvidia_stock_price_prediction.png\<close>, whatever was stored there, leaves every
  other file alone, and saves the chart before it shows it. The Python function returns
  nothing: the model's result is the world alone.
\<close>

theorem chart_saved_then_shown:
  assumes wf: "wf_frame data"
    and d: "get_column data ''Date'' = Inr d"
    and c: "get_column data ''Close'' = Inr c"
    and m: "get_column data ''Moving_Avg'' = Inr m"
    and p: "get_column data ''Linear_Regression_Pred'' = Inr p"
  shows "\<exists>w' fig. visualize_predictions data w = Inr w'
           \<and> files w' = (files w)(''nvidia_stock_price_prediction.png'' \<mapsto> Image fig)
           \<and> events w' = events w @ [Saved ''nvidia_stock_price_prediction.png'' fig, Shown fig]
           \<and> provider w' = provider w
           \<and> map line_y (lines fig) = [c, m, p]"
proof -
  define fig where "fig = \<lparr>figsize = (14, 7),
       lines = [\<lparr>line_x = d, line_y = c, line_label = ''Actual Prices'', line_color = ''blue''\<rparr>,
                \<lparr>line_x = d, line_y = m, line_label = ''Moving Average (window=5)'',
                   line_color = ''green''\<rparr>,
                \<lparr>line_x = d, line_y = p, line_label = ''Linear Regression Prediction'',
                   line_color = ''red''\<rparr>],
       title = ''Nvidia Stock Price Prediction'', xlabel = ''Date'', ylabel = ''Price (USD)'',
       legend = True, grid = True\<rparr>"
  let ?w' = "show_chart fig (savefig ''nvidia_stock_price_prediction.png'' fig w)"
  have v: "visualize_predictions data w = Inr ?w'"
    unfolding fig_def by (rule visualize_success [OF wf d c m p])
  have y: "map line_y (lines fig) = [c, m, p]" by (simp add: fig_def)
  have f: "files ?w' = (files w)(''nvidia_stock_price_prediction.png'' \<mapsto> Image fig)"
    and e: "events ?w' = events w @ [Saved ''nvidia_stock_price_prediction.png'' fig, Shown fig]"
    and pr: "provider ?w' = provider w"
    by (simp_all add: show_chart_def savefig_def)
  show ?thesis
    by (rule exI [of _ ?w'], rule exI [of _ fig]) (simp only: v f e pr y simp_thms)
qed

lemma two_days_facts:
  "wf_frame two_days"
  "get_column two_days ''Date'' = Inr (DateCol [0, 1])"
  "get_column two_days ''Close'' = Inr (FloatCol [Some 1, Some 5])"
  "get_column two_days ''Moving_Avg'' = Inr (FloatCol [None, None])"
  "get_column two_days ''Linear_Regression_Pred'' = Inr (FloatCol [None, Some 1])"
  by (simp_all add: wf_frame_def two_days_def len_def get_column_def)

text \<open>A chart already stored under the program's file name is replaced.\<close>

theorem chart_saved_then_shown_witness:
  "wf_frame two_days
   \<and> get_column two_days ''Date'' = Inr (DateCol [0, 1])
   \<and> get_column two_days ''Close'' = Inr (FloatCol [Some 1, Some 5])
   \<and> get_column two_days ''Moving_Avg'' = Inr (FloatCol [None, None])
   \<and> get_column two_days ''Linear_Regression_Pred'' = Inr (FloatCol [None, Some 1])
   \<and> files market ''nvidia_stock_price_prediction.png'' = Some (Image (figure (1, 1)))
   \<and> (\<exists>w' fig. visualize_predictions two_days market = Inr w'
         \<and> files w' ''nvidia_stock_price_prediction.png'' = Some (Image fig)
         \<and> fig \<noteq> figure (1, 1)
         \<and> events w' = [Saved ''nvidia_stock_price_prediction.png'' fig, Shown fig]
         \<and> map line_y (lines fig)
             = [FloatCol [Some 1, Some 5], FloatCol [None, None], FloatCol [None, Some 1]])"
proof -
  from chart_saved_then_shown [OF two_days_facts, of market]
  obtain w' fig where
    v: "visualize_predictions two_days market = Inr w'"
    and f: "files w' = (files market)(''nvidia_stock_price_prediction.png'' \<mapsto> Image fig)"
    and e: "events w' = events market @ [Saved ''nvidia_stock_price_prediction.png'' fig, Shown fig]"
    and y: "map line_y (lines fig)
             = [FloatCol [Some 1, Some 5], FloatCol [None, None], FloatCol [None, Some 1]]"
    by (elim exE conjE)
  have "lines (figure (1, 1)) = []" by (simp add: figure_def)
  with y have ne: "fig \<noteq> figure (1, 1)" by auto
  from f have f': "files w' ''nvidia_stock_price_prediction.png'' = Some (Image fig)" by simp
  from e have e': "events w' = [Saved ''nvidia_stock_price_prediction.png'' fig, Shown fig]"
    by (simp add: market_def)
  have old: "files market ''nvidia_stock_price_prediction.png'' = Some (Image (figure (1, 1)))"
    by (simp add: market_def)
  from v f' ne e' y have "\<exists>w' fig. visualize_predictions two_days market = Inr w'
         \<and> files w' ''nvidia_stock_price_prediction.png'' = Some (Image fig)
         \<and> fig \<noteq> figure (1, 1)
         \<and> events w' = [Saved ''nvidia_stock_price_prediction.png'' fig, Shown fig]
         \<and> map line_y (lines fig)
             = [FloatCol [Some 1, Some 5], FloatCol [None, None], FloatCol [None, Some 1]]"
    by (intro exI [of _ w'] exI [of _ fig] conjI)
  with two_days_facts old show ?thesis by (simp only: simp_thms)
qed

text \<open>The loader on the ten-record provider, the visualizer on the two-record series.\<close>

theorem date_column_is_the_axis_witness:
  "''Close'' \<noteq> ''Date''
   \<and> ''Date'' \<notin> set (column_names (provider market ''NVDA'' ''2022-01-01'' ''2023-01-01''))
   \<and> columns (load_data market ''NVDA'' ''2022-01-01'' ''2023-01-01'')
       = [(''Close'', FloatCol (map Some [1, 2, 3, 4, 5, 6, 7, 8, 9, 10])),
          (''Date'', DateCol [0, 1, 2, 3, 4, 5, 6, 7, 8, 9])]
   \<and> get_column (load_data market ''NVDA'' ''2022-01-01'' ''2023-01-01'') ''Close''
       = Inr (FloatCol (map Some [1, 2, 3, 4, 5, 6, 7, 8, 9, 10]))
   \<and> (\<exists>w'. visualize_predictions two_days market = Inr w'
         \<and> (\<exists>fig. events w' = events market
                       @ [Saved ''nvidia_stock_price_prediction.png'' fig, Shown fig]
               \<and> map line_x (lines fig) = [DateCol [0, 1], DateCol [0, 1], DateCol [0, 1]]))
   \<and> visualize_predictions (two_days\<lparr>index := [7, 8]\<rparr>) market
       = visualize_predictions two_days market"
proof -
  have h1: "''Date'' \<notin> set (column_names (provider market ''NVDA'' ''2022-01-01'' ''2023-01-01''))"
    by (simp add: market_def ten_days_def column_names_def)
  have h2: "''Close'' \<noteq> ''Date''" by simp
  from visualize_success [OF two_days_facts, of market]
  obtain w' where v: "visualize_predictions two_days market = Inr w'" ..
  note T = date_column_is_the_axis [of market "''NVDA''" "''2022-01-01''" "''2023-01-01''"
      two_days market w' "[7, 8]"]
  from T have n: "\<forall>name. name \<noteq> ''Date'' \<longrightarrow>
         get_column (load_data market ''NVDA'' ''2022-01-01'' ''2023-01-01'') name
           = get_column (provider market ''NVDA'' ''2022-01-01'' ''2023-01-01'') name"
    by (elim conjE)
  from T have a: "''Date'' \<notin> set (column_names (provider market ''NVDA'' ''2022-01-01'' ''2023-01-01'')) \<longrightarrow>
         columns (load_data market ''NVDA'' ''2022-01-01'' ''2023-01-01'')
           = columns (provider market ''NVDA'' ''2022-01-01'' ''2023-01-01'')
             @ [(''Date'', DateCol (index (provider market ''NVDA'' ''2022-01-01'' ''2023-01-01'')))]"
    by (elim conjE)
  from T have x: "visualize_predictions two_days market = Inr w' \<longrightarrow>
         (\<exists>fig d. events w' = events market @ [Saved ''nvidia_stock_price_prediction.png'' fig, Shown fig]
            \<and> get_column two_days ''Date'' = Inr d
            \<and> map line_x (lines fig) = [d, d, d]
            \<and> map line_label (lines fig)
                = [''Actual Prices'', ''Moving Average (window=5)'', ''Linear Regression Prediction''])"
    by (elim conjE)
  from T have i: "visualize_predictions (two_days\<lparr>index := [7, 8]\<rparr>) market
              = visualize_predictions two_days market"
    by (elim conjE)
  from a h1 have c1: "columns (load_data market ''NVDA'' ''2022-01-01'' ''2023-01-01'')
       = [(''Close'', FloatCol (map Some [1, 2, 3, 4, 5, 6, 7, 8, 9, 10])),
          (''Date'', DateCol [0, 1, 2, 3, 4, 5, 6, 7, 8, 9])]"
    by (simp add: market_def ten_days_def)
  from n h2 have "get_column (load_data market ''NVDA'' ''2022-01-01'' ''2023-01-01'') ''Close''
       = get_column (provider market ''NVDA'' ''2022-01-01'' ''2023-01-01'') ''Close''"
    by (elim allE [of _ "''Close''"] impE)
  also have "\<dots> = Inr (FloatCol (map Some [1, 2, 3, 4, 5, 6, 7, 8, 9, 10]))"
    by (simp add: market_def ten_days_facts(3))
  finally have c2: "get_column (load_data market ''NVDA'' ''2022-01-01'' ''2023-01-01'') ''Close''
       = Inr (FloatCol (map Some [1, 2, 3, 4, 5, 6, 7, 8, 9, 10]))" .
  from x v obtain fig d where
    e: "events w' = events market @ [Saved ''nvidia_stock_price_prediction.png'' fig, Shown fig]"
    and dd: "get_column two_days ''Date'' = Inr d" and lx: "map line_x (lines fig) = [d, d, d]"
    by (elim impE exE conjE)
  from dd have "d = DateCol [0, 1]" by (simp add: two_days_facts)
  with lx have lx': "map line_x (lines fig) = [DateCol [0, 1], DateCol [0, 1], DateCol [0, 1]]"
    by simp
  from v e lx' have c3: "\<exists>w'. visualize_predictions two_days market = Inr w'
         \<and> (\<exists>fig. events w' = events market
                       @ [Saved ''nvidia_stock_price_prediction.png'' fig, Shown fig]
               \<and> map line_x (lines fig) = [DateCol [0, 1], DateCol [0, 1], DateCol [0, 1]])"
    by (intro exI [of _ w'] exI [of _ fig] conjI)
  from h1 h2 c1 c2 c3 i show ?thesis by (simp only: simp_thms)
qed

end
